theory Spec2Isabelle
  imports
    Main
    "HOL-Library.Multiset"
    "HOL-Library.Char_ord"
    "HOL-Library.List_Lexorder"
    "HOL-Library.Product_Lexorder"
    "HOL-Library.Sublist"
begin

section \<open>Persisted models (app/models.py)\<close>

text \<open>
  Each table class of \<^verbatim>\<open>app/models.py\<close> is a record with one field per column, in the
  order of the class body. Python's \<^verbatim>\<open>int\<close> is \<^typ>\<open>int\<close>, \<^verbatim>\<open>str\<close> is \<^typ>\<open>string\<close>,
  \<^verbatim>\<open>Optional[T]\<close> is \<^typ>\<open>'a option\<close>. The ORM relationships are back-references
  computed by queries and are not columns. A \<^verbatim>\<open>datetime\<close> is a number of clock ticks.
\<close>

type_synonym datetime = nat

record landing_page =
  lp_id :: "int option"
  lp_title :: string
  lp_slug :: string
  lp_is_active :: bool
  lp_meta_title :: "string option"
  lp_meta_description :: "string option"
  lp_created_at :: datetime
  lp_updated_at :: datetime

record hero_section =
  hs_id :: "int option"
  hs_landing_page_id :: int
  hs_headline :: string
  hs_subheadline :: "string option"
  hs_description :: "string option"
  hs_background_image_url :: "string option"
  hs_background_color :: "string option"
  hs_text_color :: "string option"
  hs_primary_button_text :: "string option"
  hs_primary_button_url :: "string option"
  hs_secondary_button_text :: "string option"
  hs_secondary_button_url :: "string option"
  hs_alignment :: string
  hs_height :: string
  hs_display_order :: int
  hs_is_active :: bool
  hs_created_at :: datetime
  hs_updated_at :: datetime

record feature =
  ft_id :: "int option"
  ft_landing_page_id :: int
  ft_title :: string
  ft_description :: string
  ft_icon :: "string option"
  ft_icon_color :: "string option"
  ft_image_url :: "string option"
  ft_link_text :: "string option"
  ft_link_url :: "string option"
  ft_background_color :: "string option"
  ft_text_color :: "string option"
  ft_display_order :: int
  ft_is_featured :: bool
  ft_is_active :: bool
  ft_created_at :: datetime
  ft_updated_at :: datetime

record cta_section =
  cta_id :: "int option"
  cta_landing_page_id :: int
  cta_headline :: string
  cta_subheadline :: "string option"
  cta_description :: "string option"
  cta_primary_button_text :: string
  cta_primary_button_url :: string
  cta_primary_button_style :: string
  cta_secondary_button_text :: "string option"
  cta_secondary_button_url :: "string option"
  cta_secondary_button_style :: string
  cta_background_color :: "string option"
  cta_text_color :: "string option"
  cta_background_image_url :: "string option"
  cta_alignment :: string
  cta_size :: string
  cta_display_order :: int
  cta_is_active :: bool
  cta_created_at :: datetime
  cta_updated_at :: datetime

section \<open>The record store\<close>

text \<open>
  The database behind \<^verbatim>\<open>get_session()\<close>: one list of rows per table, in insertion
  order. Every service method opens its own session, so the store is passed in and, by
  the methods that write, returned.
\<close>

record store =
  landing_pages :: "landing_page list"
  hero_sections :: "hero_section list"
  features :: "feature list"
  cta_sections :: "cta_section list"

definition empty_store :: store where
  "empty_store =
     \<lparr>landing_pages = [], hero_sections = [], features = [], cta_sections = []\<rparr>"

section \<open>Read accessors (app/landing_service.py)\<close>

text \<open>
  A \<^verbatim>\<open>select(...).where(...).order_by(asc(...))\<close> is a filter of the table followed by a
  sort on the key. The sort is the stable insertion sort \<^const>\<open>sort_key\<close>, so rows
  with equal keys keep their insertion order; strings compare lexicographically by
  character code.
\<close>

definition get_active_landing_page :: "string \<Rightarrow> store \<Rightarrow> landing_page option" where
  "get_active_landing_page slug s =
     find (\<lambda>p. lp_slug p = slug \<and> lp_is_active p) (landing_pages s)"

definition get_hero_sections :: "int \<Rightarrow> store \<Rightarrow> hero_section list" where
  "get_hero_sections landing_page_id s =
     sort_key hs_display_order
       (filter (\<lambda>h. hs_landing_page_id h = landing_page_id \<and> hs_is_active h)
          (hero_sections s))"

definition get_features :: "int \<Rightarrow> store \<Rightarrow> feature list" where
  "get_features landing_page_id s =
     sort_key (\<lambda>f. (ft_display_order f, ft_title f))
       (filter (\<lambda>f. ft_landing_page_id f = landing_page_id \<and> ft_is_active f)
          (features s))"

definition get_cta_sections :: "int \<Rightarrow> store \<Rightarrow> cta_section list" where
  "get_cta_sections landing_page_id s =
     sort_key cta_display_order
       (filter (\<lambda>c. cta_landing_page_id c = landing_page_id \<and> cta_is_active c)
          (cta_sections s))"

section \<open>The feature partition of the page (app/landing_page.py)\<close>

text \<open>
  \<^verbatim>\<open>create_features_section\<close> renders two groups of cards. The groups are the two list
  comprehensions of its body; the section is rendered only for a non-empty list.
\<close>

definition featured_features :: "feature list \<Rightarrow> feature list" where
  "featured_features fs = take 3 (filter ft_is_featured fs)"

definition other_features :: "feature list \<Rightarrow> feature list" where
  "other_features fs = filter (\<lambda>f. \<not> ft_is_featured f) fs"

definition create_features_section :: "feature list \<Rightarrow> (feature list \<times> feature list) option" where
  "create_features_section fs =
     (if fs = [] then None else Some (featured_features fs, other_features fs))"

section \<open>Errors\<close>

text \<open>
  The exceptions that can leave a service method: the schema library's
  \<^verbatim>\<open>ValidationError\<close>, the store's \<^verbatim>\<open>IntegrityError\<close> (a declared constraint is
  violated; the specification calls it ConstraintError), the store's
  \<^verbatim>\<open>OperationalError\<close> (the commit could not be carried out) and the \<^verbatim>\<open>ValueError\<close>
  raised by \<^verbatim>\<open>create_sample_data\<close>.
\<close>

datatype error = ValidationError | IntegrityError | OperationalError | ValueError

section \<open>Create schemas (app/models.py)\<close>

text \<open>
  A schema is built from keyword arguments. The schema classes are declared with
  \<^verbatim>\<open>table=False\<close> and no configuration of their own, so the constructor validates the
  declared fields (required, type, \<^verbatim>\<open>max_length\<close>), fills in declared defaults and
  ignores every keyword that names no declared field. Keyword values are taken at the
  Python type they have. The conversions that the library applies to a value of another
  type than the declared one (a numeric string for an \<^verbatim>\<open>int\<close> field, 0 or 1 for a
  \<^verbatim>\<open>bool\<close> field) are outside this model, which rejects such a value; every keyword
  list of the source and of its tests has values of the declared types.
\<close>

datatype pyval = PyInt int | PyStr string | PyBool bool | PyNone

type_synonym kwargs = "(string \<times> pyval) list"

definition required_int :: "kwargs \<Rightarrow> string \<Rightarrow> error + int" where
  "required_int kw k =
     (case map_of kw k of
        Some (PyInt i) \<Rightarrow> Inr i
      | _ \<Rightarrow> Inl ValidationError)"

definition required_str :: "nat \<Rightarrow> kwargs \<Rightarrow> string \<Rightarrow> error + string" where
  "required_str max_length kw k =
     (case map_of kw k of
        Some (PyStr v) \<Rightarrow> if length v \<le> max_length then Inr v else Inl ValidationError
      | _ \<Rightarrow> Inl ValidationError)"

definition optional_str :: "nat \<Rightarrow> kwargs \<Rightarrow> string \<Rightarrow> error + string option" where
  "optional_str max_length kw k =
     (case map_of kw k of
        None \<Rightarrow> Inr None
      | Some PyNone \<Rightarrow> Inr None
      | Some (PyStr v) \<Rightarrow> if length v \<le> max_length then Inr (Some v) else Inl ValidationError
      | Some _ \<Rightarrow> Inl ValidationError)"

definition default_str :: "string \<Rightarrow> nat \<Rightarrow> kwargs \<Rightarrow> string \<Rightarrow> error + string" where
  "default_str d max_length kw k =
     (case map_of kw k of
        None \<Rightarrow> Inr d
      | Some (PyStr v) \<Rightarrow> if length v \<le> max_length then Inr v else Inl ValidationError
      | Some _ \<Rightarrow> Inl ValidationError)"

definition default_bool :: "bool \<Rightarrow> kwargs \<Rightarrow> string \<Rightarrow> error + bool" where
  "default_bool d kw k =
     (case map_of kw k of
        None \<Rightarrow> Inr d
      | Some (PyBool b) \<Rightarrow> Inr b
      | Some _ \<Rightarrow> Inl ValidationError)"

text \<open>
  Validation goes through the declared fields in order; the first failure is the
  exception of the constructor.
\<close>

definition and_then :: "error + 'a \<Rightarrow> ('a \<Rightarrow> error + 'b) \<Rightarrow> error + 'b" where
  "and_then r f = (case r of Inl e \<Rightarrow> Inl e | Inr v \<Rightarrow> f v)"

record landing_page_create =
  lpc_title :: string
  lpc_slug :: string
  lpc_meta_title :: "string option"
  lpc_meta_description :: "string option"

record hero_section_create =
  hsc_landing_page_id :: int
  hsc_headline :: string
  hsc_subheadline :: "string option"
  hsc_description :: "string option"
  hsc_background_image_url :: "string option"
  hsc_primary_button_text :: "string option"
  hsc_primary_button_url :: "string option"
  hsc_alignment :: string

record feature_create =
  fc_landing_page_id :: int
  fc_title :: string
  fc_description :: string
  fc_icon :: "string option"
  fc_image_url :: "string option"
  fc_link_text :: "string option"
  fc_link_url :: "string option"
  fc_is_featured :: bool

record cta_section_create =
  cc_landing_page_id :: int
  cc_headline :: string
  cc_subheadline :: "string option"
  cc_description :: "string option"
  cc_primary_button_text :: string
  cc_primary_button_url :: string
  cc_secondary_button_text :: "string option"
  cc_secondary_button_url :: "string option"
  cc_alignment :: string

definition LandingPageCreate :: "kwargs \<Rightarrow> error + landing_page_create" where
  "LandingPageCreate kw =
     and_then (required_str 200 kw ''title'') (\<lambda>title.
     and_then (required_str 100 kw ''slug'') (\<lambda>slug.
     and_then (optional_str 200 kw ''meta_title'') (\<lambda>meta_title.
     and_then (optional_str 500 kw ''meta_description'') (\<lambda>meta_description.
     Inr \<lparr>lpc_title = title, lpc_slug = slug, lpc_meta_title = meta_title,
          lpc_meta_description = meta_description\<rparr>))))"

definition HeroSectionCreate :: "kwargs \<Rightarrow> error + hero_section_create" where
  "HeroSectionCreate kw =
     and_then (required_int kw ''landing_page_id'') (\<lambda>landing_page_id.
     and_then (required_str 300 kw ''headline'') (\<lambda>headline.
     and_then (optional_str 500 kw ''subheadline'') (\<lambda>subheadline.
     and_then (optional_str 1000 kw ''description'') (\<lambda>description.
     and_then (optional_str 500 kw ''background_image_url'') (\<lambda>background_image_url.
     and_then (optional_str 100 kw ''primary_button_text'') (\<lambda>primary_button_text.
     and_then (optional_str 500 kw ''primary_button_url'') (\<lambda>primary_button_url.
     and_then (default_str ''center'' 20 kw ''alignment'') (\<lambda>alignment.
     Inr \<lparr>hsc_landing_page_id = landing_page_id, hsc_headline = headline,
          hsc_subheadline = subheadline, hsc_description = description,
          hsc_background_image_url = background_image_url,
          hsc_primary_button_text = primary_button_text,
          hsc_primary_button_url = primary_button_url,
          hsc_alignment = alignment\<rparr>))))))))"

definition FeatureCreate :: "kwargs \<Rightarrow> error + feature_create" where
  "FeatureCreate kw =
     and_then (required_int kw ''landing_page_id'') (\<lambda>landing_page_id.
     and_then (required_str 200 kw ''title'') (\<lambda>title.
     and_then (required_str 1000 kw ''description'') (\<lambda>description.
     and_then (optional_str 100 kw ''icon'') (\<lambda>icon.
     and_then (optional_str 500 kw ''image_url'') (\<lambda>image_url.
     and_then (optional_str 100 kw ''link_text'') (\<lambda>link_text.
     and_then (optional_str 500 kw ''link_url'') (\<lambda>link_url.
     and_then (default_bool False kw ''is_featured'') (\<lambda>is_featured.
     Inr \<lparr>fc_landing_page_id = landing_page_id, fc_title = title,
          fc_description = description, fc_icon = icon, fc_image_url = image_url,
          fc_link_text = link_text, fc_link_url = link_url,
          fc_is_featured = is_featured\<rparr>))))))))"

definition CallToActionSectionCreate :: "kwargs \<Rightarrow> error + cta_section_create" where
  "CallToActionSectionCreate kw =
     and_then (required_int kw ''landing_page_id'') (\<lambda>landing_page_id.
     and_then (required_str 300 kw ''headline'') (\<lambda>headline.
     and_then (optional_str 500 kw ''subheadline'') (\<lambda>subheadline.
     and_then (optional_str 1000 kw ''description'') (\<lambda>description.
     and_then (required_str 100 kw ''primary_button_text'') (\<lambda>primary_button_text.
     and_then (required_str 500 kw ''primary_button_url'') (\<lambda>primary_button_url.
     and_then (optional_str 100 kw ''secondary_button_text'') (\<lambda>secondary_button_text.
     and_then (optional_str 500 kw ''secondary_button_url'') (\<lambda>secondary_button_url.
     and_then (default_str ''center'' 20 kw ''alignment'') (\<lambda>alignment.
     Inr \<lparr>cc_landing_page_id = landing_page_id, cc_headline = headline,
          cc_subheadline = subheadline, cc_description = description,
          cc_primary_button_text = primary_button_text,
          cc_primary_button_url = primary_button_url,
          cc_secondary_button_text = secondary_button_text,
          cc_secondary_button_url = secondary_button_url,
          cc_alignment = alignment\<rparr>)))))))))"

section \<open>Building a row from a schema\<close>

text \<open>
  \<^verbatim>\<open>Model(**data.model_dump())\<close>: the dump holds the declared fields of the schema and
  nothing else, so the row takes those and the column default everywhere else. The two
  \<^verbatim>\<open>default_factory=datetime.utcnow\<close> columns read the clock; the readings and the fate
  of the commit are the environment of one service call.
\<close>

record env =
  utcnow_created :: datetime
  utcnow_updated :: datetime
  commit_fails :: bool

definition LandingPage :: "env \<Rightarrow> landing_page_create \<Rightarrow> landing_page" where
  "LandingPage e d =
     \<lparr>lp_id = None, lp_title = lpc_title d, lp_slug = lpc_slug d, lp_is_active = True,
      lp_meta_title = lpc_meta_title d, lp_meta_description = lpc_meta_description d,
      lp_created_at = utcnow_created e, lp_updated_at = utcnow_updated e\<rparr>"

definition HeroSection :: "env \<Rightarrow> hero_section_create \<Rightarrow> hero_section" where
  "HeroSection e d =
     \<lparr>hs_id = None, hs_landing_page_id = hsc_landing_page_id d,
      hs_headline = hsc_headline d, hs_subheadline = hsc_subheadline d,
      hs_description = hsc_description d,
      hs_background_image_url = hsc_background_image_url d,
      hs_background_color = None, hs_text_color = None,
      hs_primary_button_text = hsc_primary_button_text d,
      hs_primary_button_url = hsc_primary_button_url d,
      hs_secondary_button_text = None, hs_secondary_button_url = None,
      hs_alignment = hsc_alignment d, hs_height = ''full'',
      hs_display_order = 0, hs_is_active = True,
      hs_created_at = utcnow_created e, hs_updated_at = utcnow_updated e\<rparr>"

definition Feature :: "env \<Rightarrow> feature_create \<Rightarrow> feature" where
  "Feature e d =
     \<lparr>ft_id = None, ft_landing_page_id = fc_landing_page_id d,
      ft_title = fc_title d, ft_description = fc_description d,
      ft_icon = fc_icon d, ft_icon_color = None, ft_image_url = fc_image_url d,
      ft_link_text = fc_link_text d, ft_link_url = fc_link_url d,
      ft_background_color = None, ft_text_color = None,
      ft_display_order = 0, ft_is_featured = fc_is_featured d, ft_is_active = True,
      ft_created_at = utcnow_created e, ft_updated_at = utcnow_updated e\<rparr>"

definition CallToActionSection :: "env \<Rightarrow> cta_section_create \<Rightarrow> cta_section" where
  "CallToActionSection e d =
     \<lparr>cta_id = None, cta_landing_page_id = cc_landing_page_id d,
      cta_headline = cc_headline d, cta_subheadline = cc_subheadline d,
      cta_description = cc_description d,
      cta_primary_button_text = cc_primary_button_text d,
      cta_primary_button_url = cc_primary_button_url d,
      cta_primary_button_style = ''primary'',
      cta_secondary_button_text = cc_secondary_button_text d,
      cta_secondary_button_url = cc_secondary_button_url d,
      cta_secondary_button_style = ''secondary'',
      cta_background_color = None, cta_text_color = None,
      cta_background_image_url = None,
      cta_alignment = cc_alignment d, cta_size = ''medium'',
      cta_display_order = 0, cta_is_active = True,
      cta_created_at = utcnow_created e, cta_updated_at = utcnow_updated e\<rparr>"

section \<open>Writing to the store\<close>

text \<open>
  Modelled from the spec: the session of \<^verbatim>\<open>app/database.py\<close>, which is not among the
  sources. \<^verbatim>\<open>session.add; session.commit; session.refresh\<close> is one unit of work
  against the store, which enforces the constraints declared on the table classes
  (\<^verbatim>\<open>primary_key=True\<close>, \<^verbatim>\<open>unique=True\<close>, \<^verbatim>\<open>foreign_key="landing_pages.id"\<close>) and
  signals a violation as a distinguishable error. A commit that raises leaves the store
  as it was. A commit that succeeds gives the row an id that no row of the table has and
  appends it; the refreshed row is returned.
\<close>

definition fresh_id :: "int option list \<Rightarrow> int" where
  "fresh_id ids = fold (\<lambda>i m. max (case i of None \<Rightarrow> 0 | Some n \<Rightarrow> n) m) ids 0 + 1"

definition add_landing_page ::
  "env \<Rightarrow> landing_page \<Rightarrow> store \<Rightarrow> (error + landing_page) \<times> store" where
  "add_landing_page e row s =
     (if commit_fails e then (Inl OperationalError, s)
      else if lp_slug row \<in> set (map lp_slug (landing_pages s)) then (Inl IntegrityError, s)
      else
        (let row' = row\<lparr>lp_id := Some (fresh_id (map lp_id (landing_pages s)))\<rparr>
         in (Inr row', s\<lparr>landing_pages := landing_pages s @ [row']\<rparr>)))"

definition add_hero_section ::
  "env \<Rightarrow> hero_section \<Rightarrow> store \<Rightarrow> (error + hero_section) \<times> store" where
  "add_hero_section e row s =
     (if commit_fails e then (Inl OperationalError, s)
      else if Some (hs_landing_page_id row) \<notin> set (map lp_id (landing_pages s))
      then (Inl IntegrityError, s)
      else
        (let row' = row\<lparr>hs_id := Some (fresh_id (map hs_id (hero_sections s)))\<rparr>
         in (Inr row', s\<lparr>hero_sections := hero_sections s @ [row']\<rparr>)))"

definition add_feature ::
  "env \<Rightarrow> feature \<Rightarrow> store \<Rightarrow> (error + feature) \<times> store" where
  "add_feature e row s =
     (if commit_fails e then (Inl OperationalError, s)
      else if Some (ft_landing_page_id row) \<notin> set (map lp_id (landing_pages s))
      then (Inl IntegrityError, s)
      else
        (let row' = row\<lparr>ft_id := Some (fresh_id (map ft_id (features s)))\<rparr>
         in (Inr row', s\<lparr>features := features s @ [row']\<rparr>)))"

definition add_cta_section ::
  "env \<Rightarrow> cta_section \<Rightarrow> store \<Rightarrow> (error + cta_section) \<times> store" where
  "add_cta_section e row s =
     (if commit_fails e then (Inl OperationalError, s)
      else if Some (cta_landing_page_id row) \<notin> set (map lp_id (landing_pages s))
      then (Inl IntegrityError, s)
      else
        (let row' = row\<lparr>cta_id := Some (fresh_id (map cta_id (cta_sections s)))\<rparr>
         in (Inr row', s\<lparr>cta_sections := cta_sections s @ [row']\<rparr>)))"

text \<open>Fetching a row by its primary key, as \<^verbatim>\<open>session.get\<close> and the refresh do.\<close>

definition landing_page_by_id :: "int \<Rightarrow> store \<Rightarrow> landing_page option" where
  "landing_page_by_id i s = find (\<lambda>r. lp_id r = Some i) (landing_pages s)"

definition hero_section_by_id :: "int \<Rightarrow> store \<Rightarrow> hero_section option" where
  "hero_section_by_id i s = find (\<lambda>r. hs_id r = Some i) (hero_sections s)"

definition feature_by_id :: "int \<Rightarrow> store \<Rightarrow> feature option" where
  "feature_by_id i s = find (\<lambda>r. ft_id r = Some i) (features s)"

definition cta_section_by_id :: "int \<Rightarrow> store \<Rightarrow> cta_section option" where
  "cta_section_by_id i s = find (\<lambda>r. cta_id r = Some i) (cta_sections s)"

section \<open>Creation operations (app/landing_service.py)\<close>

definition create_landing_page ::
  "env \<Rightarrow> landing_page_create \<Rightarrow> store \<Rightarrow> (error + landing_page) \<times> store" where
  "create_landing_page e data s = add_landing_page e (LandingPage e data) s"

definition create_hero_section ::
  "env \<Rightarrow> hero_section_create \<Rightarrow> store \<Rightarrow> (error + hero_section) \<times> store" where
  "create_hero_section e data s = add_hero_section e (HeroSection e data) s"

definition create_feature ::
  "env \<Rightarrow> feature_create \<Rightarrow> store \<Rightarrow> (error + feature) \<times> store" where
  "create_feature e data s = add_feature e (Feature e data) s"

definition create_cta_section ::
  "env \<Rightarrow> cta_section_create \<Rightarrow> store \<Rightarrow> (error + cta_section) \<times> store" where
  "create_cta_section e data s = add_cta_section e (CallToActionSection e data) s"

section \<open>Sample data (app/landing_service.py)\<close>

text \<open>
  The keyword arguments that \<^verbatim>\<open>create_sample_data\<close> passes to the four schema
  constructors, as written in the source.
\<close>

definition landing_page_kwargs :: kwargs where
  "landing_page_kwargs =
     [(''title'', PyStr ''Modern Landing Page''),
      (''slug'', PyStr ''home''),
      (''meta_title'', PyStr ''Modern Landing Page - Beautiful Design''),
      (''meta_description'', PyStr ''A modern and elegant landing page with clean design and engaging features.'')]"

definition hero_kwargs :: "int \<Rightarrow> kwargs" where
  "hero_kwargs page_id =
     [(''landing_page_id'', PyInt page_id),
      (''headline'', PyStr ''Transform Your Business with Modern Solutions''),
      (''subheadline'', PyStr ''Unlock your potential with our cutting-edge platform''),
      (''description'', PyStr ''Experience the future of business automation with our intuitive, powerful, and beautifully designed platform that grows with your needs.''),
      (''background_color'', PyStr ''#1e293b''),
      (''text_color'', PyStr ''#ffffff''),
      (''primary_button_text'', PyStr ''Get Started''),
      (''primary_button_url'', PyStr ''/signup''),
      (''alignment'', PyStr ''center''),
      (''height'', PyStr ''full'')]"

definition features_kwargs :: "int \<Rightarrow> kwargs list" where
  "features_kwargs page_id =
     [[(''landing_page_id'', PyInt page_id),
       (''title'', PyStr ''Lightning Fast Performance''),
       (''description'', PyStr ''Built with modern technology stack for maximum speed and reliability. Experience blazing-fast load times and seamless user interactions.''),
       (''icon'', PyStr ''speed''),
       (''icon_color'', PyStr ''#10b981''),
       (''display_order'', PyInt 1),
       (''is_featured'', PyBool True)],
      [(''landing_page_id'', PyInt page_id),
       (''title'', PyStr ''Intuitive Design''),
       (''description'', PyStr ''User-centered design that makes complex tasks simple. Our interface adapts to your workflow, not the other way around.''),
       (''icon'', PyStr ''design_services''),
       (''icon_color'', PyStr ''#3b82f6''),
       (''display_order'', PyInt 2),
       (''is_featured'', PyBool True)],
      [(''landing_page_id'', PyInt page_id),
       (''title'', PyStr ''Enterprise Security''),
       (''description'', PyStr ''Bank-level security with end-to-end encryption, SSO integration, and compliance with industry standards.''),
       (''icon'', PyStr ''security''),
       (''icon_color'', PyStr ''#8b5cf6''),
       (''display_order'', PyInt 3),
       (''is_featured'', PyBool True)],
      [(''landing_page_id'', PyInt page_id),
       (''title'', PyStr ''24/7 Support''),
       (''description'', PyStr ''Our dedicated support team is available around the clock to help you succeed with personalized assistance.''),
       (''icon'', PyStr ''support_agent''),
       (''icon_color'', PyStr ''#f59e0b''),
       (''display_order'', PyInt 4)],
      [(''landing_page_id'', PyInt page_id),
       (''title'', PyStr ''Scalable Infrastructure''),
       (''description'', PyStr ''From startup to enterprise, our platform scales with your business without compromising performance.''),
       (''icon'', PyStr ''trending_up''),
       (''icon_color'', PyStr ''#ef4444''),
       (''display_order'', PyInt 5)],
      [(''landing_page_id'', PyInt page_id),
       (''title'', PyStr ''Advanced Analytics''),
       (''description'', PyStr ''Make data-driven decisions with comprehensive analytics and real-time insights into your business metrics.''),
       (''icon'', PyStr ''analytics''),
       (''icon_color'', PyStr ''#06b6d4''),
       (''display_order'', PyInt 6)]]"

definition cta_kwargs :: "int \<Rightarrow> kwargs" where
  "cta_kwargs page_id =
     [(''landing_page_id'', PyInt page_id),
      (''headline'', PyStr ''Ready to Transform Your Business?''),
      (''subheadline'', PyStr ''Join thousands of satisfied customers''),
      (''description'', PyStr ''Start your journey today with our free trial. No credit card required, no hidden fees, just pure innovation at your fingertips.''),
      (''primary_button_text'', PyStr ''Start Free Trial''),
      (''primary_button_url'', PyStr ''/trial''),
      (''secondary_button_text'', PyStr ''View Pricing''),
      (''secondary_button_url'', PyStr ''/pricing''),
      (''background_color'', PyStr ''#f8fafc''),
      (''alignment'', PyStr ''center''),
      (''size'', PyStr ''large'')]"

text \<open>
  A list literal of constructor calls evaluates them left to right; the first one that
  raises ends the evaluation.
\<close>

fun collect :: "(error + 'a) list \<Rightarrow> error + 'a list" where
  "collect [] = Inr []"
| "collect (r # rs) = and_then r (\<lambda>v. and_then (collect rs) (\<lambda>vs. Inr (v # vs)))"

text \<open>
  Sequencing of statements that may raise: an exception ends the method with the store
  as it is at that moment, since every earlier service call has already committed.
\<close>

definition then_do ::
  "(error + 'a) \<times> store \<Rightarrow> ('a \<Rightarrow> store \<Rightarrow> (error + 'b) \<times> store) \<Rightarrow> (error + 'b) \<times> store" where
  "then_do r f = (case r of (Inl e, s) \<Rightarrow> (Inl e, s) | (Inr v, s) \<Rightarrow> f v s)"

text \<open>
  The \<^verbatim>\<open>for feature_data in features_data\<close> loop. Service call number \<open>i\<close> of
  \<^verbatim>\<open>create_sample_data\<close> runs in the environment \<open>envs i\<close>.
\<close>

fun create_features ::
  "(nat \<Rightarrow> env) \<Rightarrow> nat \<Rightarrow> feature_create list \<Rightarrow> store \<Rightarrow> (error + unit) \<times> store" where
  "create_features envs i [] s = (Inr (), s)"
| "create_features envs i (feature_data # rest) s =
     then_do (create_feature (envs i) feature_data s)
       (\<lambda>_ s'. create_features envs (Suc i) rest s')"

definition create_sample_data :: "(nat \<Rightarrow> env) \<Rightarrow> store \<Rightarrow> (error + landing_page) \<times> store" where
  "create_sample_data envs s =
     then_do (LandingPageCreate landing_page_kwargs, s) (\<lambda>landing_page_data s.
     then_do (create_landing_page (envs 0) landing_page_data s) (\<lambda>landing_page s.
     (case lp_id landing_page of
        None \<Rightarrow> (Inl ValueError, s)
      | Some page_id \<Rightarrow>
          then_do (HeroSectionCreate (hero_kwargs page_id), s) (\<lambda>hero_data s.
          then_do (create_hero_section (envs 1) hero_data s) (\<lambda>_ s.
          then_do (collect (map FeatureCreate (features_kwargs page_id)), s) (\<lambda>features_data s.
          then_do (create_features envs 2 features_data s) (\<lambda>_ s.
          then_do (CallToActionSectionCreate (cta_kwargs page_id), s) (\<lambda>cta_data s.
          then_do (create_cta_section (envs 8) cta_data s) (\<lambda>_ s.
          (Inr landing_page, s))))))))))"

section \<open>Example rows\<close>

text \<open>Concrete rows and stores on which the properties below are exercised.\<close>

definition example_env :: env where
  "example_env = \<lparr>utcnow_created = 0, utcnow_updated = 0, commit_fails = False\<rparr>"

definition feature_row :: "int \<Rightarrow> int \<Rightarrow> string \<Rightarrow> bool \<Rightarrow> feature" where
  "feature_row page_id display_order title is_featured =
     (Feature example_env
        \<lparr>fc_landing_page_id = page_id, fc_title = title, fc_description = ''Description'',
         fc_icon = None, fc_image_url = None, fc_link_text = None, fc_link_url = None,
         fc_is_featured = is_featured\<rparr>)\<lparr>ft_display_order := display_order\<rparr>"

definition features_store :: "feature list \<Rightarrow> store" where
  "features_store fs = empty_store\<lparr>features := fs\<rparr>"

text \<open>A page that is switched off, with one switched-off component of each kind.\<close>

definition hidden_page :: landing_page where
  "hidden_page =
     (LandingPage example_env
        \<lparr>lpc_title = ''Test Page'', lpc_slug = ''test'', lpc_meta_title = None,
         lpc_meta_description = None\<rparr>)\<lparr>lp_id := Some 1, lp_is_active := False\<rparr>"

definition hidden_hero :: hero_section where
  "hidden_hero =
     (HeroSection example_env
        \<lparr>hsc_landing_page_id = 1, hsc_headline = ''First Hero'', hsc_subheadline = None,
         hsc_description = None, hsc_background_image_url = None,
         hsc_primary_button_text = None, hsc_primary_button_url = None,
         hsc_alignment = ''center''\<rparr>)\<lparr>hs_id := Some 1, hs_is_active := False\<rparr>"

definition hidden_feature :: feature where
  "hidden_feature = (feature_row 1 0 ''Feature A'' False)\<lparr>ft_id := Some 1, ft_is_active := False\<rparr>"

definition hidden_cta :: cta_section where
  "hidden_cta =
     (CallToActionSection example_env
        \<lparr>cc_landing_page_id = 1, cc_headline = ''First CTA'', cc_subheadline = None,
         cc_description = None, cc_primary_button_text = ''Action 1'',
         cc_primary_button_url = ''/action1'', cc_secondary_button_text = None,
         cc_secondary_button_url = None,
         cc_alignment = ''center''\<rparr>)\<lparr>cta_id := Some 1, cta_is_active := False\<rparr>"

definition hidden_store :: store where
  "hidden_store =
     \<lparr>landing_pages = [hidden_page], hero_sections = [hidden_hero],
      features = [hidden_feature], cta_sections = [hidden_cta]\<rparr>"

text \<open>
  Referential integrity of a store: every component row names the id of a page row.
\<close>

definition references_ok :: "store \<Rightarrow> bool" where
  "references_ok s \<longleftrightarrow>
     list_all (\<lambda>h. Some (hs_landing_page_id h) \<in> set (map lp_id (landing_pages s)))
       (hero_sections s) \<and>
     list_all (\<lambda>f. Some (ft_landing_page_id f) \<in> set (map lp_id (landing_pages s)))
       (features s) \<and>
     list_all (\<lambda>c. Some (cta_landing_page_id c) \<in> set (map lp_id (landing_pages s)))
       (cta_sections s)"

text \<open>Five featured features and one plain one, already in display order.\<close>

definition five_featured :: "feature list" where
  "five_featured =
     [feature_row 1 1 ''F1'' True, feature_row 1 2 ''F2'' True, feature_row 1 3 ''F3'' True,
      feature_row 1 4 ''F4'' True, feature_row 1 5 ''F5'' True, feature_row 1 6 ''N6'' False]"

text \<open>
  The field names declared by each schema class, and the keyword arguments that remain
  when every other keyword is taken away.
\<close>

definition landing_page_create_fields :: "string list" where
  "landing_page_create_fields = [''title'', ''slug'', ''meta_title'', ''meta_description'']"

definition hero_section_create_fields :: "string list" where
  "hero_section_create_fields =
     [''landing_page_id'', ''headline'', ''subheadline'', ''description'',
      ''background_image_url'', ''primary_button_text'', ''primary_button_url'',
      ''alignment'']"

definition feature_create_fields :: "string list" where
  "feature_create_fields =
     [''landing_page_id'', ''title'', ''description'', ''icon'', ''image_url'',
      ''link_text'', ''link_url'', ''is_featured'']"

definition cta_section_create_fields :: "string list" where
  "cta_section_create_fields =
     [''landing_page_id'', ''headline'', ''subheadline'', ''description'',
      ''primary_button_text'', ''primary_button_url'', ''secondary_button_text'',
      ''secondary_button_url'', ''alignment'']"

definition declared_only :: "string list \<Rightarrow> kwargs \<Rightarrow> kwargs" where
  "declared_only names kw = filter (\<lambda>(k, v). k \<in> set names) kw"

text \<open>The inputs of the creation tests in \<^verbatim>\<open>tests/test_landing_service.py\<close>.\<close>

definition test_page_data :: landing_page_create where
  "test_page_data =
     \<lparr>lpc_title = ''Test Landing Page'', lpc_slug = ''test-page'',
      lpc_meta_title = Some ''Test Page Title'',
      lpc_meta_description = Some ''Test page description''\<rparr>"

definition test_page :: landing_page where
  "test_page = (LandingPage example_env test_page_data)\<lparr>lp_id := Some 1\<rparr>"

definition one_page_store :: store where
  "one_page_store = empty_store\<lparr>landing_pages := [test_page]\<rparr>"

definition test_hero_data :: hero_section_create where
  "test_hero_data =
     \<lparr>hsc_landing_page_id = 1, hsc_headline = ''Test Headline'',
      hsc_subheadline = Some ''Test Subheadline'', hsc_description = Some ''Test description'',
      hsc_background_image_url = None, hsc_primary_button_text = Some ''Click Me'',
      hsc_primary_button_url = Some ''/test'', hsc_alignment = ''center''\<rparr>"

definition test_hero :: hero_section where
  "test_hero = (HeroSection example_env test_hero_data)\<lparr>hs_id := Some 1\<rparr>"

definition test_feature_data :: feature_create where
  "test_feature_data =
     \<lparr>fc_landing_page_id = 1, fc_title = ''Test Feature'',
      fc_description = ''Test feature description'', fc_icon = Some ''star'',
      fc_image_url = None, fc_link_text = None, fc_link_url = None,
      fc_is_featured = True\<rparr>"

definition test_feature :: feature where
  "test_feature = (Feature example_env test_feature_data)\<lparr>ft_id := Some 1\<rparr>"

definition test_cta_data :: cta_section_create where
  "test_cta_data =
     \<lparr>cc_landing_page_id = 1, cc_headline = ''Test CTA'',
      cc_subheadline = Some ''Test CTA Subheadline'',
      cc_description = Some ''Test CTA description'',
      cc_primary_button_text = ''Primary Action'', cc_primary_button_url = ''/primary'',
      cc_secondary_button_text = Some ''Secondary Action'',
      cc_secondary_button_url = Some ''/secondary'', cc_alignment = ''center''\<rparr>"

definition test_cta :: cta_section where
  "test_cta = (CallToActionSection example_env test_cta_data)\<lparr>cta_id := Some 1\<rparr>"

text \<open>
  Environments of the service calls of \<^verbatim>\<open>create_sample_data\<close>: one in which every
  commit is carried out, and one in which the commit of call number \<open>k\<close> fails. The
  store after one undisturbed run on the empty store, and the page that run created.
\<close>

definition calm :: "nat \<Rightarrow> env" where
  "calm i = example_env"

definition fails_at :: "nat \<Rightarrow> nat \<Rightarrow> env" where
  "fails_at k i = example_env\<lparr>commit_fails := (i = k)\<rparr>"

definition seeded_store :: store where
  "seeded_store = snd (create_sample_data calm empty_store)"

definition seeded_page :: landing_page where
  "seeded_page = last (landing_pages seeded_store)"

text \<open>
  Keyword lists that carry, besides the required fields, keywords that the schema does
  not declare; the schema values they give; the rows created from those.
\<close>

definition extra_page_kwargs :: kwargs where
  "extra_page_kwargs =
     [(''title'', PyStr ''Test Page''), (''slug'', PyStr ''test''),
      (''is_active'', PyBool False)]"

definition extra_page_data :: landing_page_create where
  "extra_page_data =
     \<lparr>lpc_title = ''Test Page'', lpc_slug = ''test'', lpc_meta_title = None,
      lpc_meta_description = None\<rparr>"

definition extra_page :: landing_page where
  "extra_page = (LandingPage example_env extra_page_data)\<lparr>lp_id := Some 1\<rparr>"

definition extra_hero_kwargs :: kwargs where
  "extra_hero_kwargs =
     [(''landing_page_id'', PyInt 1), (''headline'', PyStr ''First Hero''),
      (''background_color'', PyStr ''#1e293b''), (''text_color'', PyStr ''#ffffff''),
      (''height'', PyStr ''compact''), (''display_order'', PyInt 2),
      (''is_active'', PyBool False)]"

definition extra_hero_data :: hero_section_create where
  "extra_hero_data =
     \<lparr>hsc_landing_page_id = 1, hsc_headline = ''First Hero'', hsc_subheadline = None,
      hsc_description = None, hsc_background_image_url = None,
      hsc_primary_button_text = None, hsc_primary_button_url = None,
      hsc_alignment = ''center''\<rparr>"

definition extra_hero :: hero_section where
  "extra_hero = (HeroSection example_env extra_hero_data)\<lparr>hs_id := Some 1\<rparr>"

definition extra_feature_kwargs :: kwargs where
  "extra_feature_kwargs =
     [(''landing_page_id'', PyInt 1), (''title'', PyStr ''Feature B''),
      (''description'', PyStr ''Description B''), (''icon_color'', PyStr ''#10b981''),
      (''background_color'', PyStr ''#f8fafc''), (''text_color'', PyStr ''#1f2937''),
      (''display_order'', PyInt 2), (''is_active'', PyBool False)]"

definition extra_feature_data :: feature_create where
  "extra_feature_data =
     \<lparr>fc_landing_page_id = 1, fc_title = ''Feature B'', fc_description = ''Description B'',
      fc_icon = None, fc_image_url = None, fc_link_text = None, fc_link_url = None,
      fc_is_featured = False\<rparr>"

definition extra_feature :: feature where
  "extra_feature = (Feature example_env extra_feature_data)\<lparr>ft_id := Some 1\<rparr>"

definition extra_cta_kwargs :: kwargs where
  "extra_cta_kwargs =
     [(''landing_page_id'', PyInt 1), (''headline'', PyStr ''First CTA''),
      (''primary_button_text'', PyStr ''Action 1''),
      (''primary_button_url'', PyStr ''/action1''),
      (''background_color'', PyStr ''#f8fafc''), (''size'', PyStr ''large''),
      (''display_order'', PyInt 2), (''is_active'', PyBool False)]"

definition extra_cta_data :: cta_section_create where
  "extra_cta_data =
     \<lparr>cc_landing_page_id = 1, cc_headline = ''First CTA'', cc_subheadline = None,
      cc_description = None, cc_primary_button_text = ''Action 1'',
      cc_primary_button_url = ''/action1'', cc_secondary_button_text = None,
      cc_secondary_button_url = None, cc_alignment = ''center''\<rparr>"

definition extra_cta :: cta_section where
  "extra_cta = (CallToActionSection example_env extra_cta_data)\<lparr>cta_id := Some 1\<rparr>"

section \<open>Properties\<close>

subsection \<open>Ordering of features\<close>

lemma sorted_pairs_iff:
  "sorted (map (\<lambda>f. (ft_display_order f, ft_title f)) fs) =
   sorted_wrt (\<lambda>a b. ft_display_order a < ft_display_order b \<or>
      (ft_display_order a = ft_display_order b \<and> ft_title a \<le> ft_title b)) fs"
  by (simp add: sorted_map less_eq_prod_def)
    (metis (mono_tags, lifting) order.order_iff_strict sorted_wrt_mono_rel)

text \<open>
  C1. For every page id, \<open>get_features\<close> returns exactly the rows of the feature table
  whose \<open>landing_page_id\<close> is that id and whose \<open>is_active\<close> is true (as a multiset: each
  such row once), in ascending \<open>display_order\<close>, rows of equal \<open>display_order\<close> in
  ascending \<open>title\<close>. Rows stored with (order, title) = (2, B), (1, A) come back as A, B;
  rows stored with (1, B), (1, A) come back as A, B.
\<close>

theorem get_features_filtered_sorted:
  "mset (get_features pid s) =
     filter_mset (\<lambda>f. ft_landing_page_id f = pid \<and> ft_is_active f) (mset (features s))
   \<and> sorted_wrt (\<lambda>a b. ft_display_order a < ft_display_order b \<or>
        (ft_display_order a = ft_display_order b \<and> ft_title a \<le> ft_title b))
        (get_features pid s)
   \<and> map ft_title (get_features 1
        (features_store [feature_row 1 2 ''B'' False, feature_row 1 1 ''A'' False])) =
      [''A'', ''B'']
   \<and> map ft_title (get_features 1
        (features_store [feature_row 1 1 ''B'' False, feature_row 1 1 ''A'' False])) =
      [''A'', ''B'']"
proof -
  have a: "mset (get_features pid s) =
     filter_mset (\<lambda>f. ft_landing_page_id f = pid \<and> ft_is_active f) (mset (features s))"
    by (simp add: get_features_def)
  have "sorted (map (\<lambda>f. (ft_display_order f, ft_title f)) (get_features pid s))"
    unfolding get_features_def by (rule sorted_sort_key)
  then have b: "sorted_wrt (\<lambda>a b. ft_display_order a < ft_display_order b \<or>
        (ft_display_order a = ft_display_order b \<and> ft_title a \<le> ft_title b))
        (get_features pid s)"
    by (simp only: sorted_pairs_iff)
  have c: "map ft_title (get_features 1
        (features_store [feature_row 1 2 ''B'' False, feature_row 1 1 ''A'' False])) =
      [''A'', ''B'']"
    by (simp add: get_features_def features_store_def empty_store_def feature_row_def
        Feature_def less_eq_prod_def)
  have d: "map ft_title (get_features 1
        (features_store [feature_row 1 1 ''B'' False, feature_row 1 1 ''A'' False])) =
      [''A'', ''B'']"
    by (simp add: get_features_def features_store_def empty_store_def feature_row_def
        Feature_def less_eq_prod_def)
  from a b c d show ?thesis by blast
qed

subsection \<open>Active filtering\<close>

text \<open>
  C2. For every store, every page id and every hero section, feature or call-to-action
  row: a row whose \<open>is_active\<close> is false is not among the rows returned by
  \<open>get_hero_sections\<close>, \<open>get_features\<close> or \<open>get_cta_sections\<close>. The accessors
  only read the store, and nothing is assumed about the page row, so this holds whether
  the owning page is active or not.
\<close>

theorem inactive_rows_not_returned:
  "(\<not> hs_is_active h \<longrightarrow> h \<notin> set (get_hero_sections pid s))
   \<and> (\<not> ft_is_active f \<longrightarrow> f \<notin> set (get_features pid s))
   \<and> (\<not> cta_is_active c \<longrightarrow> c \<notin> set (get_cta_sections pid s))"
  by (simp add: get_hero_sections_def get_features_def get_cta_sections_def)

text \<open>
  The rows of \<open>hidden_store\<close> are in the store, their page is inactive, and none of
  them is returned.
\<close>

theorem inactive_rows_not_returned_witness:
  "\<not> lp_is_active hidden_page \<and> hidden_page \<in> set (landing_pages hidden_store)
   \<and> \<not> hs_is_active hidden_hero \<and> hidden_hero \<in> set (hero_sections hidden_store)
   \<and> hidden_hero \<notin> set (get_hero_sections 1 hidden_store)
   \<and> \<not> ft_is_active hidden_feature \<and> hidden_feature \<in> set (features hidden_store)
   \<and> hidden_feature \<notin> set (get_features 1 hidden_store)
   \<and> \<not> cta_is_active hidden_cta \<and> hidden_cta \<in> set (cta_sections hidden_store)
   \<and> hidden_cta \<notin> set (get_cta_sections 1 hidden_store)"
proof -
  have h: "\<not> hs_is_active hidden_hero" by (simp add: hidden_hero_def)
  have f: "\<not> ft_is_active hidden_feature" by (simp add: hidden_feature_def)
  have c: "\<not> cta_is_active hidden_cta" by (simp add: hidden_cta_def)
  have p: "\<not> lp_is_active hidden_page" by (simp add: hidden_page_def)
  show ?thesis
    using h f c p
      inactive_rows_not_returned [of hidden_hero 1 hidden_store hidden_feature hidden_cta]
    by (simp add: hidden_store_def)
qed

subsection \<open>Accessors on pages without rows\<close>

lemma filter_none: "list_all (\<lambda>x. \<not> P x) xs \<Longrightarrow> filter P xs = []"
  by (induction xs) auto

lemma no_reference_no_row:
  "list_all (\<lambda>x. Some (k x) \<in> set ids) xs \<Longrightarrow> Some pid \<notin> set ids \<Longrightarrow>
   list_all (\<lambda>x. \<not> (k x = pid \<and> a x)) xs"
  by (induction xs) auto

text \<open>
  C5. For every page id, each accessor returns the empty list when its table has no
  active row of that page; the accessors are total and have no error result. In a store
  with referential integrity this is the case for every id that matches no page.
\<close>

theorem accessors_empty_without_rows:
  "(list_all (\<lambda>h. \<not> (hs_landing_page_id h = pid \<and> hs_is_active h)) (hero_sections s)
      \<longrightarrow> get_hero_sections pid s = [])
   \<and> (list_all (\<lambda>f. \<not> (ft_landing_page_id f = pid \<and> ft_is_active f)) (features s)
      \<longrightarrow> get_features pid s = [])
   \<and> (list_all (\<lambda>c. \<not> (cta_landing_page_id c = pid \<and> cta_is_active c)) (cta_sections s)
      \<longrightarrow> get_cta_sections pid s = [])
   \<and> (references_ok s \<and> Some pid \<notin> set (map lp_id (landing_pages s))
      \<longrightarrow> get_hero_sections pid s = [] \<and> get_features pid s = []
          \<and> get_cta_sections pid s = [])"
proof -
  have a: "list_all (\<lambda>h. \<not> (hs_landing_page_id h = pid \<and> hs_is_active h)) (hero_sections s)
      \<Longrightarrow> get_hero_sections pid s = []"
    by (simp add: get_hero_sections_def filter_none)
  have b: "list_all (\<lambda>f. \<not> (ft_landing_page_id f = pid \<and> ft_is_active f)) (features s)
      \<Longrightarrow> get_features pid s = []"
    by (simp add: get_features_def filter_none)
  have c: "list_all (\<lambda>c. \<not> (cta_landing_page_id c = pid \<and> cta_is_active c)) (cta_sections s)
      \<Longrightarrow> get_cta_sections pid s = []"
    by (simp add: get_cta_sections_def filter_none)
  have d: "get_hero_sections pid s = [] \<and> get_features pid s = []
          \<and> get_cta_sections pid s = []"
    if "references_ok s" and "Some pid \<notin> set (map lp_id (landing_pages s))"
  proof -
    from that have h: "list_all (\<lambda>h. \<not> (hs_landing_page_id h = pid \<and> hs_is_active h)) (hero_sections s)"
      unfolding references_ok_def by (blast intro: no_reference_no_row)
    from that have f: "list_all (\<lambda>f. \<not> (ft_landing_page_id f = pid \<and> ft_is_active f)) (features s)"
      unfolding references_ok_def by (blast intro: no_reference_no_row)
    from that have c': "list_all (\<lambda>c. \<not> (cta_landing_page_id c = pid \<and> cta_is_active c)) (cta_sections s)"
      unfolding references_ok_def by (blast intro: no_reference_no_row)
    from h f c' a b c show ?thesis by simp
  qed
  from a b c d show ?thesis by blast
qed

text \<open>Page id 999 in a store whose only page has id 1, and page id 1 in the empty store.\<close>

theorem accessors_empty_without_rows_witness:
  "references_ok hidden_store \<and> Some 999 \<notin> set (map lp_id (landing_pages hidden_store))
   \<and> get_hero_sections 999 hidden_store = [] \<and> get_features 999 hidden_store = []
   \<and> get_cta_sections 999 hidden_store = []
   \<and> get_hero_sections 1 empty_store = [] \<and> get_features 1 empty_store = []
   \<and> get_cta_sections 1 empty_store = []"
proof -
  have r: "references_ok hidden_store"
    by (simp add: references_ok_def hidden_store_def hidden_page_def hidden_hero_def
        hidden_feature_def hidden_cta_def feature_row_def LandingPage_def HeroSection_def
        Feature_def CallToActionSection_def)
  have n: "Some 999 \<notin> set (map lp_id (landing_pages hidden_store))"
    by (simp add: hidden_store_def hidden_page_def)
  have e: "list_all (\<lambda>h. \<not> (hs_landing_page_id h = 1 \<and> hs_is_active h)) (hero_sections empty_store)"
    "list_all (\<lambda>f. \<not> (ft_landing_page_id f = 1 \<and> ft_is_active f)) (features empty_store)"
    "list_all (\<lambda>c. \<not> (cta_landing_page_id c = 1 \<and> cta_is_active c)) (cta_sections empty_store)"
    by (simp_all add: empty_store_def)
  show ?thesis
    using r n e accessors_empty_without_rows [of 999 hidden_store]
      accessors_empty_without_rows [of 1 empty_store]
    by blast
qed

subsection \<open>The featured cap\<close>

text \<open>
  C3, as stated, fails: with five featured features the first three are the featured
  group, and the fourth and fifth are not in the group of the others.
\<close>

theorem others_omits_extra_featured:
  "featured_features five_featured = take 3 five_featured
   \<and> \<not> set (drop 3 (filter ft_is_featured five_featured)) \<subseteq> set (other_features five_featured)"
  by (simp add: five_featured_def featured_features_def other_features_def feature_row_def
      Feature_def)

lemma filter_split3:
  "mset (take 3 (filter P xs)) + mset (drop 3 (filter P xs)) + mset (filter (\<lambda>x. \<not> P x) xs)
   = mset xs"
proof -
  have "mset (take 3 (filter P xs)) + mset (drop 3 (filter P xs)) = mset (filter P xs)"
    by (metis append_take_drop_id mset_append)
  then show ?thesis by simp
qed

text \<open>
  C3, amended. For every feature list: the featured group is the first three features
  with \<open>is_featured\<close> true, in the order of the list; the group of the others is
  exactly the features with \<open>is_featured\<close> false, in the order of the list; a featured
  feature after the third is in neither group. With five featured features, the
  featured group is the first three and the others are the non-featured ones only.
\<close>

theorem features_partition:
  "featured_features fs = take 3 (filter ft_is_featured fs)
   \<and> length (featured_features fs) = min 3 (length (filter ft_is_featured fs))
   \<and> subseq (featured_features fs) fs
   \<and> other_features fs = filter (\<lambda>f. \<not> ft_is_featured f) fs
   \<and> subseq (other_features fs) fs
   \<and> mset (featured_features fs) + mset (drop 3 (filter ft_is_featured fs))
       + mset (other_features fs) = mset fs
   \<and> featured_features five_featured = take 3 five_featured
   \<and> other_features five_featured = drop 5 five_featured"
proof -
  have a: "subseq (featured_features fs) fs"
  proof -
    have "subseq (take 3 (filter ft_is_featured fs)) (filter ft_is_featured fs)"
      by (rule prefix_imp_subseq) (rule take_is_prefix)
    moreover have "subseq (filter ft_is_featured fs) fs" by simp
    ultimately show ?thesis
      unfolding featured_features_def by (rule subseq_order.order_trans)
  qed
  have b: "subseq (other_features fs) fs"
    unfolding other_features_def by simp
  have c: "mset (featured_features fs) + mset (drop 3 (filter ft_is_featured fs))
       + mset (other_features fs) = mset fs"
    unfolding featured_features_def other_features_def by (rule filter_split3)
  have d: "featured_features five_featured = take 3 five_featured
   \<and> other_features five_featured = drop 5 five_featured"
    by (simp add: five_featured_def featured_features_def other_features_def feature_row_def
      Feature_def)
  from a b c d show ?thesis
    by (simp add: featured_features_def other_features_def)
qed

subsection \<open>Fresh identifiers and fetching by id\<close>

lemma fold_max_mono: "m \<le> fold (\<lambda>i m. max (g i) m) ids (m::int)"
proof (induction ids arbitrary: m)
  case Nil
  show ?case by simp
next
  case (Cons a ids)
  have "m \<le> max (g a) m" by simp
  also have "\<dots> \<le> fold (\<lambda>i m. max (g i) m) ids (max (g a) m)" by (rule Cons.IH)
  finally show ?case by simp
qed

lemma fold_max_upper: "i \<in> set ids \<Longrightarrow> g i \<le> fold (\<lambda>i m. max (g i) m) ids (m::int)"
proof (induction ids arbitrary: m)
  case Nil
  then show ?case by simp
next
  case (Cons a ids)
  show ?case
  proof (cases "i = a")
    case True
    have "g a \<le> max (g a) m" by simp
    also have "\<dots> \<le> fold (\<lambda>i m. max (g i) m) ids (max (g a) m)" by (rule fold_max_mono)
    finally show ?thesis using True by simp
  next
    case False
    with Cons.prems have "i \<in> set ids" by simp
    then show ?thesis by (simp add: Cons.IH)
  qed
qed

lemma fresh_id_fresh: "Some (fresh_id ids) \<notin> set ids"
proof
  assume "Some (fresh_id ids) \<in> set ids"
  then have "(case Some (fresh_id ids) of None \<Rightarrow> 0 | Some n \<Rightarrow> n)
      \<le> fold (\<lambda>i m. max (case i of None \<Rightarrow> 0 | Some n \<Rightarrow> n) m) ids 0"
    by (rule fold_max_upper)
  then show False by (simp add: fresh_id_def)
qed

lemma find_snoc_fresh:
  "k \<notin> set (map f xs) \<Longrightarrow> f y = k \<Longrightarrow> find (\<lambda>r. f r = k) (xs @ [y]) = Some y"
  by (induction xs) auto

subsection \<open>What a successful creation returns\<close>

lemma create_landing_page_success:
  "create_landing_page e d s = (Inr p, s') \<Longrightarrow>
   p = (LandingPage e d)\<lparr>lp_id := Some (fresh_id (map lp_id (landing_pages s)))\<rparr>
   \<and> s' = s\<lparr>landing_pages := landing_pages s @ [p]\<rparr>"
  by (auto simp: create_landing_page_def add_landing_page_def Let_def split: if_splits)

lemma create_hero_section_success:
  "create_hero_section e d s = (Inr h, s') \<Longrightarrow>
   h = (HeroSection e d)\<lparr>hs_id := Some (fresh_id (map hs_id (hero_sections s)))\<rparr>
   \<and> s' = s\<lparr>hero_sections := hero_sections s @ [h]\<rparr>"
  by (auto simp: create_hero_section_def add_hero_section_def Let_def split: if_splits)

lemma create_feature_success:
  "create_feature e d s = (Inr f, s') \<Longrightarrow>
   f = (Feature e d)\<lparr>ft_id := Some (fresh_id (map ft_id (features s)))\<rparr>
   \<and> s' = s\<lparr>features := features s @ [f]\<rparr>"
  by (auto simp: create_feature_def add_feature_def Let_def split: if_splits)

lemma create_cta_section_success:
  "create_cta_section e d s = (Inr c, s') \<Longrightarrow>
   c = (CallToActionSection e d)\<lparr>cta_id := Some (fresh_id (map cta_id (cta_sections s)))\<rparr>
   \<and> s' = s\<lparr>cta_sections := cta_sections s @ [c]\<rparr>"
  by (auto simp: create_cta_section_def add_cta_section_def Let_def split: if_splits)

subsection \<open>Slug uniqueness\<close>

text \<open>
  C6. In every store that already holds a page with slug \<open>s\<close>, \<open>create_landing_page\<close>
  with slug \<open>s\<close> fails and leaves the store, and so its pages, as they were; when the
  commit is carried out at all, the failure is the store's unique violation
  \<open>IntegrityError\<close>.
\<close>

theorem create_landing_page_duplicate_slug:
  assumes "lpc_slug d \<in> set (map lp_slug (landing_pages s))"
  shows "(\<exists>err. create_landing_page e d s = (Inl err, s))
    \<and> (\<not> commit_fails e \<longrightarrow> create_landing_page e d s = (Inl IntegrityError, s))"
  using assms by (simp add: create_landing_page_def add_landing_page_def LandingPage_def)

subsection \<open>Round trip\<close>

lemma page_roundtrip:
  assumes "create_landing_page e d s = (Inr p, s')"
  shows "(\<exists>i. lp_id p = Some i \<and> landing_page_by_id i s' = Some p)
    \<and> lp_title p = lpc_title d \<and> lp_slug p = lpc_slug d
    \<and> lp_meta_title p = lpc_meta_title d
    \<and> lp_meta_description p = lpc_meta_description d"
proof -
  from create_landing_page_success [OF assms]
  have p: "p = (LandingPage e d)\<lparr>lp_id := Some (fresh_id (map lp_id (landing_pages s)))\<rparr>"
    and s': "s' = s\<lparr>landing_pages := landing_pages s @ [p]\<rparr>" by simp_all
  have i: "lp_id p = Some (fresh_id (map lp_id (landing_pages s)))" by (simp add: p)
  have "find (\<lambda>r. lp_id r = Some (fresh_id (map lp_id (landing_pages s)))) (landing_pages s @ [p]) = Some p"
    by (rule find_snoc_fresh [OF fresh_id_fresh i])
  then have "landing_page_by_id (fresh_id (map lp_id (landing_pages s))) s' = Some p"
    by (simp add: landing_page_by_id_def s')
  with i show ?thesis by (simp add: p LandingPage_def)
qed

lemma hero_roundtrip:
  assumes "create_hero_section e d s = (Inr h, s')"
  shows "(\<exists>i. hs_id h = Some i \<and> hero_section_by_id i s' = Some h)
    \<and> hs_landing_page_id h = hsc_landing_page_id d \<and> hs_headline h = hsc_headline d
    \<and> hs_subheadline h = hsc_subheadline d \<and> hs_description h = hsc_description d
    \<and> hs_background_image_url h = hsc_background_image_url d
    \<and> hs_primary_button_text h = hsc_primary_button_text d
    \<and> hs_primary_button_url h = hsc_primary_button_url d
    \<and> hs_alignment h = hsc_alignment d"
proof -
  from create_hero_section_success [OF assms]
  have p: "h = (HeroSection e d)\<lparr>hs_id := Some (fresh_id (map hs_id (hero_sections s)))\<rparr>"
    and s': "s' = s\<lparr>hero_sections := hero_sections s @ [h]\<rparr>" by simp_all
  have i: "hs_id h = Some (fresh_id (map hs_id (hero_sections s)))" by (simp add: p)
  have "find (\<lambda>r. hs_id r = Some (fresh_id (map hs_id (hero_sections s)))) (hero_sections s @ [h]) = Some h"
    by (rule find_snoc_fresh [OF fresh_id_fresh i])
  then have "hero_section_by_id (fresh_id (map hs_id (hero_sections s))) s' = Some h"
    by (simp add: hero_section_by_id_def s')
  with i show ?thesis by (simp add: p HeroSection_def)
qed

lemma feature_roundtrip:
  assumes "create_feature e d s = (Inr f, s')"
  shows "(\<exists>i. ft_id f = Some i \<and> feature_by_id i s' = Some f)
    \<and> ft_landing_page_id f = fc_landing_page_id d \<and> ft_title f = fc_title d
    \<and> ft_description f = fc_description d \<and> ft_icon f = fc_icon d
    \<and> ft_image_url f = fc_image_url d \<and> ft_link_text f = fc_link_text d
    \<and> ft_link_url f = fc_link_url d \<and> ft_is_featured f = fc_is_featured d"
proof -
  from create_feature_success [OF assms]
  have p: "f = (Feature e d)\<lparr>ft_id := Some (fresh_id (map ft_id (features s)))\<rparr>"
    and s': "s' = s\<lparr>features := features s @ [f]\<rparr>" by simp_all
  have i: "ft_id f = Some (fresh_id (map ft_id (features s)))" by (simp add: p)
  have "find (\<lambda>r. ft_id r = Some (fresh_id (map ft_id (features s)))) (features s @ [f]) = Some f"
    by (rule find_snoc_fresh [OF fresh_id_fresh i])
  then have "feature_by_id (fresh_id (map ft_id (features s))) s' = Some f"
    by (simp add: feature_by_id_def s')
  with i show ?thesis by (simp add: p Feature_def)
qed

lemma cta_roundtrip:
  assumes "create_cta_section e d s = (Inr c, s')"
  shows "(\<exists>i. cta_id c = Some i \<and> cta_section_by_id i s' = Some c)
    \<and> cta_landing_page_id c = cc_landing_page_id d \<and> cta_headline c = cc_headline d
    \<and> cta_subheadline c = cc_subheadline d \<and> cta_description c = cc_description d
    \<and> cta_primary_button_text c = cc_primary_button_text d
    \<and> cta_primary_button_url c = cc_primary_button_url d
    \<and> cta_secondary_button_text c = cc_secondary_button_text d
    \<and> cta_secondary_button_url c = cc_secondary_button_url d
    \<and> cta_alignment c = cc_alignment d"
proof -
  from create_cta_section_success [OF assms]
  have p: "c = (CallToActionSection e d)\<lparr>cta_id := Some (fresh_id (map cta_id (cta_sections s)))\<rparr>"
    and s': "s' = s\<lparr>cta_sections := cta_sections s @ [c]\<rparr>" by simp_all
  have i: "cta_id c = Some (fresh_id (map cta_id (cta_sections s)))" by (simp add: p)
  have "find (\<lambda>r. cta_id r = Some (fresh_id (map cta_id (cta_sections s)))) (cta_sections s @ [c]) = Some c"
    by (rule find_snoc_fresh [OF fresh_id_fresh i])
  then have "cta_section_by_id (fresh_id (map cta_id (cta_sections s))) s' = Some c"
    by (simp add: cta_section_by_id_def s')
  with i show ?thesis by (simp add: p CallToActionSection_def)
qed


subsection \<open>The test inputs, created\<close>

lemma test_page_created:
  "create_landing_page example_env test_page_data empty_store = (Inr test_page, one_page_store)"
  by (simp add: create_landing_page_def add_landing_page_def Let_def empty_store_def
      one_page_store_def test_page_def example_env_def fresh_id_def)

lemma test_hero_created:
  "create_hero_section example_env test_hero_data one_page_store =
   (Inr test_hero, one_page_store\<lparr>hero_sections := [test_hero]\<rparr>)"
  by (simp add: create_hero_section_def add_hero_section_def Let_def empty_store_def
      one_page_store_def test_page_def test_hero_def test_hero_data_def HeroSection_def
      example_env_def fresh_id_def)

lemma test_feature_created:
  "create_feature example_env test_feature_data one_page_store =
   (Inr test_feature, one_page_store\<lparr>features := [test_feature]\<rparr>)"
  by (simp add: create_feature_def add_feature_def Let_def empty_store_def
      one_page_store_def test_page_def test_feature_def test_feature_data_def Feature_def
      example_env_def fresh_id_def)

lemma test_cta_created:
  "create_cta_section example_env test_cta_data one_page_store =
   (Inr test_cta, one_page_store\<lparr>cta_sections := [test_cta]\<rparr>)"
  by (simp add: create_cta_section_def add_cta_section_def Let_def empty_store_def
      one_page_store_def test_page_def test_cta_def test_cta_data_def
      CallToActionSection_def example_env_def fresh_id_def)

text \<open>Creating the test page a second time, in the store that holds it.\<close>

theorem create_landing_page_duplicate_slug_witness:
  "lpc_slug test_page_data \<in> set (map lp_slug (landing_pages one_page_store))
   \<and> \<not> commit_fails example_env
   \<and> create_landing_page example_env test_page_data one_page_store =
       (Inl IntegrityError, one_page_store)"
proof -
  have a: "lpc_slug test_page_data \<in> set (map lp_slug (landing_pages one_page_store))"
    by (simp add: one_page_store_def test_page_def LandingPage_def)
  have b: "\<not> commit_fails example_env" by (simp add: example_env_def)
  from a b create_landing_page_duplicate_slug [OF a, of example_env]
  show ?thesis by simp
qed

text \<open>
  C7. For each kind of entity (page, hero section, feature, call-to-action section):
  when creation from a schema value succeeds, the returned row has an id, fetching the
  row with that id from the resulting store gives that same row, and every field of the
  schema value equals the field of the same name in the row. The remaining fields of
  the row are the assigned id, the two timestamps and the column defaults.
\<close>

theorem create_then_fetch_roundtrip:
  "(create_landing_page e page_data s = (Inr p, s1) \<longrightarrow>
      (\<exists>i. lp_id p = Some i \<and> landing_page_by_id i s1 = Some p)
      \<and> lp_title p = lpc_title page_data \<and> lp_slug p = lpc_slug page_data
      \<and> lp_meta_title p = lpc_meta_title page_data
      \<and> lp_meta_description p = lpc_meta_description page_data)
   \<and> (create_hero_section e hero_data s = (Inr h, s2) \<longrightarrow>
      (\<exists>i. hs_id h = Some i \<and> hero_section_by_id i s2 = Some h)
      \<and> hs_landing_page_id h = hsc_landing_page_id hero_data \<and> hs_headline h = hsc_headline hero_data
      \<and> hs_subheadline h = hsc_subheadline hero_data \<and> hs_description h = hsc_description hero_data
      \<and> hs_background_image_url h = hsc_background_image_url hero_data
      \<and> hs_primary_button_text h = hsc_primary_button_text hero_data
      \<and> hs_primary_button_url h = hsc_primary_button_url hero_data
      \<and> hs_alignment h = hsc_alignment hero_data)
   \<and> (create_feature e feature_data s = (Inr f, s3) \<longrightarrow>
      (\<exists>i. ft_id f = Some i \<and> feature_by_id i s3 = Some f)
      \<and> ft_landing_page_id f = fc_landing_page_id feature_data \<and> ft_title f = fc_title feature_data
      \<and> ft_description f = fc_description feature_data \<and> ft_icon f = fc_icon feature_data
      \<and> ft_image_url f = fc_image_url feature_data \<and> ft_link_text f = fc_link_text feature_data
      \<and> ft_link_url f = fc_link_url feature_data \<and> ft_is_featured f = fc_is_featured feature_data)
   \<and> (create_cta_section e cta_data s = (Inr c, s4) \<longrightarrow>
      (\<exists>i. cta_id c = Some i \<and> cta_section_by_id i s4 = Some c)
      \<and> cta_landing_page_id c = cc_landing_page_id cta_data \<and> cta_headline c = cc_headline cta_data
      \<and> cta_subheadline c = cc_subheadline cta_data \<and> cta_description c = cc_description cta_data
      \<and> cta_primary_button_text c = cc_primary_button_text cta_data
      \<and> cta_primary_button_url c = cc_primary_button_url cta_data
      \<and> cta_secondary_button_text c = cc_secondary_button_text cta_data
      \<and> cta_secondary_button_url c = cc_secondary_button_url cta_data
      \<and> cta_alignment c = cc_alignment cta_data)"
  using page_roundtrip [of e page_data s p s1] hero_roundtrip [of e hero_data s h s2]
    feature_roundtrip [of e feature_data s f s3] cta_roundtrip [of e cta_data s c s4]
  by blast

text \<open>The four creations of the service tests, each fetched back by id 1.\<close>

theorem create_then_fetch_roundtrip_witness:
  "create_landing_page example_env test_page_data empty_store = (Inr test_page, one_page_store)
   \<and> landing_page_by_id 1 one_page_store = Some test_page
   \<and> lp_title test_page = ''Test Landing Page'' \<and> lp_slug test_page = ''test-page''
   \<and> lp_meta_title test_page = Some ''Test Page Title''
   \<and> lp_meta_description test_page = Some ''Test page description''
   \<and> create_hero_section example_env test_hero_data one_page_store =
       (Inr test_hero, one_page_store\<lparr>hero_sections := [test_hero]\<rparr>)
   \<and> hero_section_by_id 1 (one_page_store\<lparr>hero_sections := [test_hero]\<rparr>) = Some test_hero
   \<and> hs_headline test_hero = ''Test Headline''
   \<and> hs_primary_button_url test_hero = Some ''/test''
   \<and> create_feature example_env test_feature_data one_page_store =
       (Inr test_feature, one_page_store\<lparr>features := [test_feature]\<rparr>)
   \<and> feature_by_id 1 (one_page_store\<lparr>features := [test_feature]\<rparr>) = Some test_feature
   \<and> ft_title test_feature = ''Test Feature'' \<and> ft_icon test_feature = Some ''star''
   \<and> ft_is_featured test_feature
   \<and> create_cta_section example_env test_cta_data one_page_store =
       (Inr test_cta, one_page_store\<lparr>cta_sections := [test_cta]\<rparr>)
   \<and> cta_section_by_id 1 (one_page_store\<lparr>cta_sections := [test_cta]\<rparr>) = Some test_cta
   \<and> cta_headline test_cta = ''Test CTA''
   \<and> cta_secondary_button_url test_cta = Some ''/secondary''"
proof -
  have ids: "lp_id test_page = Some 1" "hs_id test_hero = Some 1"
    "ft_id test_feature = Some 1" "cta_id test_cta = Some 1"
    by (simp_all add: test_page_def test_hero_def test_feature_def test_cta_def)
  have dat: "lpc_title test_page_data = ''Test Landing Page''"
    "lpc_slug test_page_data = ''test-page''"
    "lpc_meta_title test_page_data = Some ''Test Page Title''"
    "lpc_meta_description test_page_data = Some ''Test page description''"
    "hsc_headline test_hero_data = ''Test Headline''"
    "hsc_primary_button_url test_hero_data = Some ''/test''"
    "fc_title test_feature_data = ''Test Feature''" "fc_icon test_feature_data = Some ''star''"
    "fc_is_featured test_feature_data"
    "cc_headline test_cta_data = ''Test CTA''"
    "cc_secondary_button_url test_cta_data = Some ''/secondary''"
    by (simp_all add: test_page_data_def test_hero_data_def test_feature_data_def
        test_cta_data_def)
  note rt = create_then_fetch_roundtrip
  have a: "landing_page_by_id 1 one_page_store = Some test_page
      \<and> lp_title test_page = ''Test Landing Page'' \<and> lp_slug test_page = ''test-page''
      \<and> lp_meta_title test_page = Some ''Test Page Title''
      \<and> lp_meta_description test_page = Some ''Test page description''"
    using rt [THEN conjunct1, THEN mp, OF test_page_created] by (auto simp: ids dat)
  have b: "hero_section_by_id 1 (one_page_store\<lparr>hero_sections := [test_hero]\<rparr>) = Some test_hero
      \<and> hs_headline test_hero = ''Test Headline''
      \<and> hs_primary_button_url test_hero = Some ''/test''"
    using rt [THEN conjunct2, THEN conjunct1, THEN mp, OF test_hero_created]
    by (auto simp: ids dat)
  have c: "feature_by_id 1 (one_page_store\<lparr>features := [test_feature]\<rparr>) = Some test_feature
      \<and> ft_title test_feature = ''Test Feature'' \<and> ft_icon test_feature = Some ''star''
      \<and> ft_is_featured test_feature"
    using rt [THEN conjunct2, THEN conjunct2, THEN conjunct1, THEN mp, OF test_feature_created]
    by (auto simp: ids dat)
  have d: "cta_section_by_id 1 (one_page_store\<lparr>cta_sections := [test_cta]\<rparr>) = Some test_cta
      \<and> cta_headline test_cta = ''Test CTA''
      \<and> cta_secondary_button_url test_cta = Some ''/secondary''"
    using rt [THEN conjunct2, THEN conjunct2, THEN conjunct2, THEN mp, OF test_cta_created]
    by (auto simp: ids dat)
  from a b c d test_page_created test_hero_created test_feature_created test_cta_created
  show ?thesis by blast
qed

subsection \<open>The sample data, step by step\<close>

lemma then_do_Inl: "then_do (Inl e, s) f = (Inl e, s)"
  by (simp add: then_do_def)

lemma then_do_Inr: "then_do (Inr v, s) f = f v s"
  by (simp add: then_do_def)

lemma and_then_Inr: "and_then (Inr v) f = f v"
  by (simp add: and_then_def)

lemma landing_page_data_ok:
  "\<exists>d. LandingPageCreate landing_page_kwargs = Inr d \<and> lpc_slug d = ''home''"
  by (simp add: LandingPageCreate_def landing_page_kwargs_def required_str_def
      optional_str_def and_then_def)

lemma hero_data_ok:
  "\<exists>d. HeroSectionCreate (hero_kwargs pid) = Inr d \<and> hsc_landing_page_id d = pid"
  by (simp add: HeroSectionCreate_def hero_kwargs_def required_str_def required_int_def
      optional_str_def default_str_def and_then_def)

lemma cta_data_ok:
  "\<exists>d. CallToActionSectionCreate (cta_kwargs pid) = Inr d \<and> cc_landing_page_id d = pid"
  by (simp add: CallToActionSectionCreate_def cta_kwargs_def required_str_def
      required_int_def optional_str_def default_str_def and_then_def)

lemma features_data_ok:
  "\<exists>fds. collect (map FeatureCreate (features_kwargs pid)) = Inr fds
     \<and> map fc_landing_page_id fds = replicate 6 pid
     \<and> map fc_is_featured fds = [True, True, True, False, False, False]"
  by (simp add: FeatureCreate_def features_kwargs_def required_str_def required_int_def
      optional_str_def default_bool_def and_then_def eval_nat_numeral)


lemma create_landing_page_ok:
  assumes "\<not> commit_fails e" and "lpc_slug d \<notin> set (map lp_slug (landing_pages s))"
  shows "\<exists>p. create_landing_page e d s = (Inr p, s\<lparr>landing_pages := landing_pages s @ [p]\<rparr>)
    \<and> lp_slug p = lpc_slug d \<and> lp_is_active p
    \<and> lp_id p = Some (fresh_id (map lp_id (landing_pages s)))"
  using assms
  by (simp add: create_landing_page_def add_landing_page_def LandingPage_def Let_def)

lemma create_hero_section_ok:
  assumes "\<not> commit_fails e"
    and "Some (hsc_landing_page_id d) \<in> set (map lp_id (landing_pages s))"
  shows "\<exists>h. create_hero_section e d s = (Inr h, s\<lparr>hero_sections := hero_sections s @ [h]\<rparr>)
    \<and> hs_landing_page_id h = hsc_landing_page_id d"
  using assms
  by (simp add: create_hero_section_def add_hero_section_def HeroSection_def Let_def)

lemma create_feature_ok:
  assumes "\<not> commit_fails e"
    and "Some (fc_landing_page_id d) \<in> set (map lp_id (landing_pages s))"
  shows "\<exists>f. create_feature e d s = (Inr f, s\<lparr>features := features s @ [f]\<rparr>)
    \<and> ft_landing_page_id f = fc_landing_page_id d \<and> ft_is_featured f = fc_is_featured d
    \<and> ft_display_order f = 0"
  using assms
  by (simp add: create_feature_def add_feature_def Feature_def Let_def)

lemma create_cta_section_ok:
  assumes "\<not> commit_fails e"
    and "Some (cc_landing_page_id d) \<in> set (map lp_id (landing_pages s))"
  shows "\<exists>c. create_cta_section e d s = (Inr c, s\<lparr>cta_sections := cta_sections s @ [c]\<rparr>)
    \<and> cta_landing_page_id c = cc_landing_page_id d"
  using assms
  by (simp add: create_cta_section_def add_cta_section_def CallToActionSection_def Let_def)

lemma create_fault:
  assumes "commit_fails e"
  shows "create_landing_page e pd s = (Inl OperationalError, s)"
    and "create_hero_section e hd' s = (Inl OperationalError, s)"
    and "create_feature e fd s = (Inl OperationalError, s)"
    and "create_cta_section e cd s = (Inl OperationalError, s)"
  using assms
  by (simp_all add: create_landing_page_def add_landing_page_def create_hero_section_def
      add_hero_section_def create_feature_def add_feature_def create_cta_section_def
      add_cta_section_def)

lemma create_features_all:
  assumes "\<forall>j<length fds. \<not> commit_fails (envs (i + j))"
    and "list_all (\<lambda>d. fc_landing_page_id d = pid) fds"
    and "Some pid \<in> set (map lp_id (landing_pages s))"
  shows "\<exists>rows. create_features envs i fds s = (Inr (), s\<lparr>features := features s @ rows\<rparr>)
    \<and> list_all (\<lambda>f. ft_landing_page_id f = pid \<and> ft_display_order f = 0) rows
    \<and> map ft_is_featured rows = map fc_is_featured fds"
  using assms
proof (induction fds arbitrary: i s)
  case Nil
  show ?case by (intro exI [of _ "[]"]) simp
next
  case (Cons d fds)
  from Cons.prems(1) have e0: "\<not> commit_fails (envs i)" by force
  from Cons.prems(2,3)
  have fk: "Some (fc_landing_page_id d) \<in> set (map lp_id (landing_pages s))" by simp
  from create_feature_ok [OF e0 fk] Cons.prems(2) obtain f
    where f: "create_feature (envs i) d s = (Inr f, s\<lparr>features := features s @ [f]\<rparr>)"
      "ft_landing_page_id f = pid" "ft_is_featured f = fc_is_featured d"
      "ft_display_order f = 0"
    by auto
  let ?s1 = "s\<lparr>features := features s @ [f]\<rparr>"
  have a: "\<forall>j<length fds. \<not> commit_fails (envs (Suc i + j))"
  proof (intro allI impI)
    fix j assume "j < length fds"
    then have "Suc j < length (d # fds)" by simp
    with Cons.prems(1) have "\<not> commit_fails (envs (i + Suc j))" by blast
    then show "\<not> commit_fails (envs (Suc i + j))" by simp
  qed
  have b: "list_all (\<lambda>d. fc_landing_page_id d = pid) fds" using Cons.prems(2) by simp
  have c: "Some pid \<in> set (map lp_id (landing_pages ?s1))" using Cons.prems(3) by simp
  from Cons.IH [OF a b c] obtain rows
    where r: "create_features envs (Suc i) fds ?s1 = (Inr (), ?s1\<lparr>features := features ?s1 @ rows\<rparr>)"
      "list_all (\<lambda>f. ft_landing_page_id f = pid \<and> ft_display_order f = 0) rows"
      "map ft_is_featured rows = map fc_is_featured fds"
    by blast
  show ?case
    by (intro exI [of _ "f # rows"]) (simp add: f r then_do_Inr)
qed

lemma create_features_fault:
  assumes "j < length fds" and "\<forall>j'<j. \<not> commit_fails (envs (i + j'))"
    and "commit_fails (envs (i + j))"
    and "list_all (\<lambda>d. fc_landing_page_id d = pid) fds"
    and "Some pid \<in> set (map lp_id (landing_pages s))"
  shows "\<exists>rows. create_features envs i fds s =
      (Inl OperationalError, s\<lparr>features := features s @ rows\<rparr>) \<and> length rows = j
    \<and> list_all (\<lambda>f. ft_landing_page_id f = pid \<and> ft_display_order f = 0) rows"
  using assms
proof (induction fds arbitrary: i j s)
  case Nil
  then show ?case by simp
next
  case (Cons d fds)
  show ?case
  proof (cases j)
    case 0
    with Cons.prems(3) have "commit_fails (envs i)" by simp
    then have "create_feature (envs i) d s = (Inl OperationalError, s)" by (rule create_fault)
    then show ?thesis using 0 by (intro exI [of _ "[]"]) (simp add: then_do_Inl)
  next
    case (Suc j')
    with Cons.prems(2) have e0: "\<not> commit_fails (envs i)" by force
    from Cons.prems(4,5)
    have fk: "Some (fc_landing_page_id d) \<in> set (map lp_id (landing_pages s))" by simp
    from create_feature_ok [OF e0 fk] Cons.prems(4) obtain f
      where f: "create_feature (envs i) d s = (Inr f, s\<lparr>features := features s @ [f]\<rparr>)"
        "ft_landing_page_id f = pid" "ft_display_order f = 0"
      by auto
    let ?s1 = "s\<lparr>features := features s @ [f]\<rparr>"
    have a: "j' < length fds" using Cons.prems(1) Suc by simp
    have b: "\<forall>k<j'. \<not> commit_fails (envs (Suc i + k))"
    proof (intro allI impI)
      fix k assume "k < j'"
      then have "Suc k < j" using Suc by simp
      with Cons.prems(2) have "\<not> commit_fails (envs (i + Suc k))" by blast
      then show "\<not> commit_fails (envs (Suc i + k))" by simp
    qed
    have c: "commit_fails (envs (Suc i + j'))" using Cons.prems(3) Suc by simp
    have d': "list_all (\<lambda>d. fc_landing_page_id d = pid) fds" using Cons.prems(4) by simp
    have e: "Some pid \<in> set (map lp_id (landing_pages ?s1))" using Cons.prems(5) by simp
    from Cons.IH [OF a b c d' e] obtain rows
      where r: "create_features envs (Suc i) fds ?s1 =
          (Inl OperationalError, ?s1\<lparr>features := features ?s1 @ rows\<rparr>)" "length rows = j'"
          "list_all (\<lambda>f. ft_landing_page_id f = pid \<and> ft_display_order f = 0) rows"
      by blast
    show ?thesis
      by (intro exI [of _ "f # rows"]) (simp add: f r then_do_Inr Suc)
  qed
qed

text \<open>
  The run of \<^verbatim>\<open>create_sample_data\<close> in a store without a page \<open>home\<close>, when the
  first \<open>k\<close> of its nine service calls are carried out and call number \<open>k\<close>, if
  there is one, fails.
\<close>

lemma create_sample_data_run:
  assumes home: "''home'' \<notin> set (map lp_slug (landing_pages s))"
    and k: "0 < k" "k \<le> 9"
    and ok: "\<forall>i<k. \<not> commit_fails (envs i)"
    and bad: "k < 9 \<longrightarrow> commit_fails (envs k)"
  shows "\<exists>p pid hs rows cs.
      create_sample_data envs s =
        (if k = 9 then Inr p else Inl OperationalError,
         s\<lparr>landing_pages := landing_pages s @ [p], hero_sections := hero_sections s @ hs,
           features := features s @ rows, cta_sections := cta_sections s @ cs\<rparr>)
      \<and> lp_slug p = ''home'' \<and> lp_is_active p \<and> lp_id p = Some pid
      \<and> pid = fresh_id (map lp_id (landing_pages s))
      \<and> length hs = (if 1 < k then 1 else 0)
      \<and> length rows = min (k - 2) 6
      \<and> length cs = (if k = 9 then 1 else 0)
      \<and> list_all (\<lambda>h. hs_landing_page_id h = pid) hs
      \<and> list_all (\<lambda>f. ft_landing_page_id f = pid \<and> ft_display_order f = 0) rows
      \<and> (k = 9 \<longrightarrow> map ft_is_featured rows = [True, True, True, False, False, False])
      \<and> list_all (\<lambda>c. cta_landing_page_id c = pid) cs"
proof -
  let ?pid = "fresh_id (map lp_id (landing_pages s))"
  obtain d where d: "LandingPageCreate landing_page_kwargs = Inr d" "lpc_slug d = ''home''"
    using landing_page_data_ok by blast
  have e0: "\<not> commit_fails (envs 0)" using k ok by blast
  have home': "lpc_slug d \<notin> set (map lp_slug (landing_pages s))"
    using home d(2) by simp
  from create_landing_page_ok [OF e0 home'] obtain p
    where p0: "create_landing_page (envs 0) d s = (Inr p, s\<lparr>landing_pages := landing_pages s @ [p]\<rparr>)"
      "lp_slug p = lpc_slug d" "lp_is_active p" "lp_id p = Some ?pid"
    by blast
  have p: "create_landing_page (envs 0) d s = (Inr p, s\<lparr>landing_pages := landing_pages s @ [p]\<rparr>)"
      "lp_slug p = ''home''" "lp_is_active p" "lp_id p = Some ?pid"
    using p0 d(2) by simp_all
  let ?s1 = "s\<lparr>landing_pages := landing_pages s @ [p]\<rparr>"
  have fk1: "Some ?pid \<in> set (map lp_id (landing_pages ?s1))" by (simp add: p)
  obtain hd' where hd: "HeroSectionCreate (hero_kwargs ?pid) = Inr hd'"
      "hsc_landing_page_id hd' = ?pid"
    using hero_data_ok by blast
  obtain fds where fds: "collect (map FeatureCreate (features_kwargs ?pid)) = Inr fds"
      "map fc_landing_page_id fds = replicate 6 ?pid"
      "map fc_is_featured fds = [True, True, True, False, False, False]"
    using features_data_ok [of ?pid] by (elim exE conjE) (rule that)
  have "length (map fc_landing_page_id fds) = length (replicate 6 ?pid)"
    by (simp only: fds(2))
  then have len: "length fds = 6" by simp
  have fpid: "list_all (\<lambda>d. fc_landing_page_id d = ?pid) fds"
    unfolding list_all_iff
  proof
    fix x assume "x \<in> set fds"
    then have "fc_landing_page_id x \<in> set (map fc_landing_page_id fds)" by simp
    then show "fc_landing_page_id x = ?pid" by (simp add: fds(2))
  qed
  obtain cd where cd: "CallToActionSectionCreate (cta_kwargs ?pid) = Inr cd"
      "cc_landing_page_id cd = ?pid"
    using cta_data_ok by blast
  have start: "create_sample_data envs s =
      then_do (create_hero_section (envs 1) hd' ?s1) (\<lambda>_ s.
      then_do (create_features envs 2 fds s) (\<lambda>_ s.
      then_do (create_cta_section (envs 8) cd s) (\<lambda>_ s. (Inr p, s))))"
    unfolding create_sample_data_def by (simp add: d p then_do_Inr hd fds cd)
  show ?thesis
  proof (cases "k = 1")
    case True
    with bad have "commit_fails (envs 1)" by simp
    then have f1: "create_hero_section (envs 1) hd' ?s1 = (Inl OperationalError, ?s1)"
      by (rule create_fault)
    have "create_sample_data envs s = (Inl OperationalError, ?s1)"
      by (simp only: start f1 then_do_Inl)
    then show ?thesis using True p
      by (intro exI [of _ p] exI [of _ ?pid] exI [of _ "[]"]) simp
  next
    case False
    with k have k2: "2 \<le> k" by simp
    with ok have e1: "\<not> commit_fails (envs 1)" by force
    from create_hero_section_ok [OF e1, of hd' ?s1] fk1 hd(2) obtain h
      where h: "create_hero_section (envs 1) hd' ?s1 =
          (Inr h, ?s1\<lparr>hero_sections := hero_sections ?s1 @ [h]\<rparr>)"
        "hs_landing_page_id h = ?pid"
      by auto
    let ?s2 = "?s1\<lparr>hero_sections := hero_sections ?s1 @ [h]\<rparr>"
    have fk2: "Some ?pid \<in> set (map lp_id (landing_pages ?s2))" by (simp add: p)
    have start2: "create_sample_data envs s =
      then_do (create_features envs 2 fds ?s2) (\<lambda>_ s.
      then_do (create_cta_section (envs 8) cd s) (\<lambda>_ s. (Inr p, s)))"
      by (simp only: start h then_do_Inr)
    show ?thesis
    proof (cases "k < 8")
      case True
      then have j: "k - 2 < length fds" using len by simp
      have a: "\<forall>j'<k - 2. \<not> commit_fails (envs (2 + j'))"
      proof (intro allI impI)
        fix j' assume "j' < k - 2"
        then have "2 + j' < k" by simp
        with ok show "\<not> commit_fails (envs (2 + j'))" by blast
      qed
      have "2 + (k - 2) = k" using k2 by simp
      moreover have "commit_fails (envs k)" using bad True by simp
      ultimately have b: "commit_fails (envs (2 + (k - 2)))" by (simp only:)
      from create_features_fault [OF j a b fpid fk2] obtain rows
        where r: "create_features envs 2 fds ?s2 =
            (Inl OperationalError, ?s2\<lparr>features := features ?s2 @ rows\<rparr>)"
          "length rows = k - 2"
          "list_all (\<lambda>f. ft_landing_page_id f = ?pid \<and> ft_display_order f = 0) rows"
        by blast
      have "create_sample_data envs s =
          (Inl OperationalError, ?s2\<lparr>features := features ?s2 @ rows\<rparr>)"
        by (simp only: start2 r then_do_Inl)
      then show ?thesis using True k2 p h r
        by (intro exI [of _ p] exI [of _ ?pid] exI [of _ "[h]"] exI [of _ rows]
            exI [of _ "[]"]) simp
    next
      case False
      then have k8: "8 \<le> k" by simp
      have a: "\<forall>j<length fds. \<not> commit_fails (envs (2 + j))"
      proof (intro allI impI)
        fix j assume "j < length fds"
        then have "2 + j < k" using len k8 by simp
        with ok show "\<not> commit_fails (envs (2 + j))" by blast
      qed
      from create_features_all [OF a fpid fk2] obtain rows
        where r: "create_features envs 2 fds ?s2 =
            (Inr (), ?s2\<lparr>features := features ?s2 @ rows\<rparr>)"
          "list_all (\<lambda>f. ft_landing_page_id f = ?pid \<and> ft_display_order f = 0) rows"
          "map ft_is_featured rows = map fc_is_featured fds"
        by blast
      have lr: "length rows = 6" using r(3) len by (metis length_map)
      let ?s3 = "?s2\<lparr>features := features ?s2 @ rows\<rparr>"
      have fk3: "Some ?pid \<in> set (map lp_id (landing_pages ?s3))" by (simp add: p)
      have start3: "create_sample_data envs s =
        then_do (create_cta_section (envs 8) cd ?s3) (\<lambda>_ s. (Inr p, s))"
        by (simp only: start2 r then_do_Inr)
      show ?thesis
      proof (cases "k = 8")
        case True
        with bad have "commit_fails (envs 8)" by simp
        then have f8: "create_cta_section (envs 8) cd ?s3 = (Inl OperationalError, ?s3)"
          by (rule create_fault)
        have "create_sample_data envs s = (Inl OperationalError, ?s3)"
          by (simp only: start3 f8 then_do_Inl)
        then show ?thesis using True p h r lr
          by (intro exI [of _ p] exI [of _ ?pid] exI [of _ "[h]"] exI [of _ rows]
              exI [of _ "[]"]) simp
      next
        case False
        with k8 k have k9: "k = 9" by simp
        with ok have e8: "\<not> commit_fails (envs 8)" by force
        from create_cta_section_ok [OF e8, of cd ?s3] fk3 cd(2) obtain c
          where c: "create_cta_section (envs 8) cd ?s3 =
              (Inr c, ?s3\<lparr>cta_sections := cta_sections ?s3 @ [c]\<rparr>)"
            "cta_landing_page_id c = ?pid"
          by auto
        have "create_sample_data envs s =
            (Inr p, ?s3\<lparr>cta_sections := cta_sections ?s3 @ [c]\<rparr>)"
          by (simp only: start3 c then_do_Inr)
        then show ?thesis using k9 p h r lr c fds(3)
          by (intro exI [of _ p] exI [of _ ?pid] exI [of _ "[h]"] exI [of _ rows]
              exI [of _ "[c]"]) simp
      qed
    qed
  qed
qed

lemma create_sample_data_page_fails:
  assumes "commit_fails (envs 0) \<or> ''home'' \<in> set (map lp_slug (landing_pages s))"
  shows "create_sample_data envs s =
    (Inl (if commit_fails (envs 0) then OperationalError else IntegrityError), s)"
proof -
  obtain d where d: "LandingPageCreate landing_page_kwargs = Inr d" "lpc_slug d = ''home''"
    using landing_page_data_ok by blast
  have "create_landing_page (envs 0) d s =
    (Inl (if commit_fails (envs 0) then OperationalError else IntegrityError), s)"
    using assms d(2)
    by (auto simp: create_landing_page_def add_landing_page_def LandingPage_def)
  then show ?thesis
    unfolding create_sample_data_def by (simp add: d then_do_Inr then_do_Inl)
qed


lemma create_sample_data_succeeds:
  assumes "create_sample_data envs s = (Inr p, s1)"
  shows "''home'' \<notin> set (map lp_slug (landing_pages s))
    \<and> landing_pages s1 = landing_pages s @ [p] \<and> lp_slug p = ''home''"
proof -
  have page: "\<not> (commit_fails (envs 0) \<or> ''home'' \<in> set (map lp_slug (landing_pages s)))"
  proof
    assume "commit_fails (envs 0) \<or> ''home'' \<in> set (map lp_slug (landing_pages s))"
    then have "create_sample_data envs s =
        (Inl (if commit_fails (envs 0) then OperationalError else IntegrityError), s)"
      by (rule create_sample_data_page_fails)
    with assms show False by simp
  qed
  then have home: "''home'' \<notin> set (map lp_slug (landing_pages s))" by simp
  have all_ok: "\<forall>i<9. \<not> commit_fails (envs i)"
  proof (rule ccontr)
    assume "\<not> (\<forall>i<9. \<not> commit_fails (envs i))"
    then obtain i where i: "i < 9" "commit_fails (envs i)" by blast
    define k where "k = (LEAST i. commit_fails (envs i))"
    have kf: "commit_fails (envs k)" unfolding k_def using i(2) by (rule LeastI)
    have kle: "k \<le> i" unfolding k_def using i(2) by (rule Least_le)
    have kmin: "\<forall>j<k. \<not> commit_fails (envs j)"
      unfolding k_def using not_less_Least by blast
    have k0: "0 < k" using kf page by (cases k) auto
    have k9: "k < 9" using kle i(1) by simp
    from create_sample_data_run [OF home k0 _ kmin] kf k9 assms
    show False by auto
  qed
  from create_sample_data_run [OF home _ _ all_ok] assms
  show ?thesis using home by auto
qed

lemma seeded:
  "create_sample_data calm empty_store = (Inr seeded_page, seeded_store)
   \<and> landing_pages seeded_store = [seeded_page] \<and> lp_slug seeded_page = ''home''
   \<and> lp_is_active seeded_page \<and> lp_id seeded_page = Some 1
   \<and> length (hero_sections seeded_store) = 1
   \<and> map ft_display_order (features seeded_store) = [0, 0, 0, 0, 0, 0]
   \<and> map ft_is_featured (features seeded_store) = [True, True, True, False, False, False]
   \<and> length (cta_sections seeded_store) = 1
   \<and> list_all (\<lambda>h. Some (hs_landing_page_id h) = lp_id seeded_page) (hero_sections seeded_store)
   \<and> list_all (\<lambda>f. Some (ft_landing_page_id f) = lp_id seeded_page) (features seeded_store)
   \<and> list_all (\<lambda>c. Some (cta_landing_page_id c) = lp_id seeded_page) (cta_sections seeded_store)"
proof -
  have home: "''home'' \<notin> set (map lp_slug (landing_pages empty_store))"
    by (simp add: empty_store_def)
  have ok: "\<forall>i<9. \<not> commit_fails (calm i)" by (simp add: calm_def example_env_def)
  from create_sample_data_run [OF home _ _ ok] obtain p pid hs rows cs
    where r: "create_sample_data calm empty_store =
        (Inr p, empty_store\<lparr>landing_pages := landing_pages empty_store @ [p],
           hero_sections := hero_sections empty_store @ hs,
           features := features empty_store @ rows,
           cta_sections := cta_sections empty_store @ cs\<rparr>)"
      and p: "lp_slug p = ''home''" "lp_is_active p" "lp_id p = Some pid"
        "pid = fresh_id (map lp_id (landing_pages empty_store))"
      and l: "length hs = 1" "length rows = 6" "length cs = 1"
      and a: "list_all (\<lambda>h. hs_landing_page_id h = pid) hs"
        "list_all (\<lambda>f. ft_landing_page_id f = pid \<and> ft_display_order f = 0) rows"
        "map ft_is_featured rows = [True, True, True, False, False, False]"
        "list_all (\<lambda>c. cta_landing_page_id c = pid) cs"
    by auto
  have s: "seeded_store = \<lparr>landing_pages = [p], hero_sections = hs, features = rows,
      cta_sections = cs\<rparr>"
    unfolding seeded_store_def r by (simp add: empty_store_def)
  have sp: "seeded_page = p" by (simp add: seeded_page_def s)
  have "list_all (\<lambda>f. ft_display_order f = 0) rows" using a(2) by (simp add: list_all_iff)
  then have "map ft_display_order rows = replicate (length rows) 0"
    by (induction rows) auto
  then have d: "map ft_display_order rows = [0, 0, 0, 0, 0, 0]"
    by (simp add: l eval_nat_numeral)
  have fl: "list_all (\<lambda>f. ft_landing_page_id f = pid) rows" using a(2) by (simp add: list_all_iff)
  have "pid = 1" using p(4) by (simp add: empty_store_def fresh_id_def)
  then show ?thesis
    using r p(1,2,3) l a(1,3,4) d fl by (simp add: s sp empty_store_def)
qed


subsection \<open>Shape of the sample data\<close>

text \<open>
  C4. One call of \<open>create_sample_data\<close> on the empty store returns a new page with slug
  \<open>home\<close> and leaves exactly that page, one hero section, six features (the first three
  featured, the last three not) and one call-to-action section, the features linked to
  the page. The call passes \<open>display_order\<close> 1 to 6 to the feature schema, which does
  not declare that field: the persisted \<open>display_order\<close> of all six features is 0, not
  1 to 6.
\<close>

theorem sample_features_lose_display_order:
  "create_sample_data calm empty_store = (Inr seeded_page, seeded_store)
   \<and> map lp_slug (landing_pages seeded_store) = [''home'']
   \<and> lp_id seeded_page = Some 1
   \<and> length (hero_sections seeded_store) = 1
   \<and> length (cta_sections seeded_store) = 1
   \<and> map ft_is_featured (features seeded_store) = [True, True, True, False, False, False]
   \<and> list_all (\<lambda>f. Some (ft_landing_page_id f) = lp_id seeded_page) (features seeded_store)
   \<and> map (\<lambda>kw. map_of kw ''display_order'') (features_kwargs 1) =
        [Some (PyInt 1), Some (PyInt 2), Some (PyInt 3), Some (PyInt 4), Some (PyInt 5),
         Some (PyInt 6)]
   \<and> map ft_display_order (features seeded_store) = [0, 0, 0, 0, 0, 0]"
proof -
  have "map (\<lambda>kw. map_of kw ''display_order'') (features_kwargs 1) =
        [Some (PyInt 1), Some (PyInt 2), Some (PyInt 3), Some (PyInt 4), Some (PyInt 5),
         Some (PyInt 6)]"
    by (simp add: features_kwargs_def)
  moreover have "map lp_slug (landing_pages seeded_store) = [''home'']"
    using seeded by simp
  ultimately show ?thesis using seeded by blast
qed

subsection \<open>Calling the generator twice\<close>

text \<open>
  C8, as stated, fails: after one call on the empty store, a second call does not
  succeed. It ends with the unique violation of the slug, and the store still holds one
  page.
\<close>

theorem second_sample_call_fails:
  "fst (create_sample_data calm empty_store) = Inr seeded_page
   \<and> snd (create_sample_data calm empty_store) = seeded_store
   \<and> create_sample_data calm seeded_store = (Inl IntegrityError, seeded_store)
   \<and> length (landing_pages seeded_store) = 1"
proof -
  have "commit_fails (calm 0) \<or> ''home'' \<in> set (map lp_slug (landing_pages seeded_store))"
    using seeded by simp
  then have "create_sample_data calm seeded_store =
      (Inl (if commit_fails (calm 0) then OperationalError else IntegrityError), seeded_store)"
    by (rule create_sample_data_page_fails)
  then have "create_sample_data calm seeded_store = (Inl IntegrityError, seeded_store)"
    by (simp add: calm_def example_env_def)
  with seeded show ?thesis by simp
qed

text \<open>
  C8, amended. \<open>create_sample_data\<close> makes no check of its own for a page \<open>home\<close>, but
  its page insert is subject to the unique slug: after a call that succeeded, a further
  call in sequence fails at the page insert (with the unique violation when the commit
  is carried out), leaves the store unchanged, and the store holds exactly one page with
  slug \<open>home\<close>, the one the first call added.
\<close>

theorem sample_data_second_call_rejected:
  assumes "create_sample_data envs s = (Inr p, s1)"
  shows "create_sample_data envs' s1 =
      (Inl (if commit_fails (envs' 0) then OperationalError else IntegrityError), s1)
    \<and> landing_pages s1 = landing_pages s @ [p]
    \<and> length (filter (\<lambda>q. lp_slug q = ''home'') (landing_pages s1)) = 1"
proof -
  from create_sample_data_succeeds [OF assms]
  have a: "''home'' \<notin> set (map lp_slug (landing_pages s))"
    and b: "landing_pages s1 = landing_pages s @ [p]" and c: "lp_slug p = ''home''"
    by simp_all
  have "commit_fails (envs' 0) \<or> ''home'' \<in> set (map lp_slug (landing_pages s1))"
    by (simp add: b c)
  then have d: "create_sample_data envs' s1 =
      (Inl (if commit_fails (envs' 0) then OperationalError else IntegrityError), s1)"
    by (rule create_sample_data_page_fails)
  have "filter (\<lambda>q. lp_slug q = ''home'') (landing_pages s) = []"
    using a by (force simp: filter_empty_conv)
  then have e: "length (filter (\<lambda>q. lp_slug q = ''home'') (landing_pages s1)) = 1"
    by (simp add: b c)
  from d b e show ?thesis by simp
qed

text \<open>Two calls in sequence, starting from the empty store.\<close>

theorem sample_data_second_call_rejected_witness:
  "create_sample_data calm empty_store = (Inr seeded_page, seeded_store)
   \<and> \<not> commit_fails (calm 0)
   \<and> create_sample_data calm seeded_store = (Inl IntegrityError, seeded_store)
   \<and> landing_pages seeded_store = landing_pages empty_store @ [seeded_page]
   \<and> length (filter (\<lambda>q. lp_slug q = ''home'') (landing_pages seeded_store)) = 1"
proof -
  have a: "create_sample_data calm empty_store = (Inr seeded_page, seeded_store)"
    using seeded by simp
  have b: "\<not> commit_fails (calm 0)" by (simp add: calm_def example_env_def)
  note r = sample_data_second_call_rejected [OF a, of calm]
  have c: "create_sample_data calm seeded_store = (Inl IntegrityError, seeded_store)"
    using r [THEN conjunct1] b by simp
  from a b c r show ?thesis by blast
qed

subsection \<open>No rollback\<close>

text \<open>
  C9. \<open>create_sample_data\<close> is not atomic. In a store without a page \<open>home\<close>, when the
  page insert is carried out and a later insert (call number \<open>k\<close>, from 1 to 8) is
  the first to fail, the call ends with that error and the store keeps the new active
  page \<open>home\<close> and the components inserted before the failure (the hero section if
  \<open>k > 1\<close>, and \<open>k - 2\<close> features), all linked to the page; nothing is rolled back.
  When the page insert itself fails, the call ends with that error and the store is
  unchanged, so no component is inserted.
\<close>

theorem sample_data_not_atomic:
  "(''home'' \<notin> set (map lp_slug (landing_pages s)) \<and> 0 < k \<and> k < 9
      \<and> (\<forall>i<k. \<not> commit_fails (envs i)) \<and> commit_fails (envs k) \<longrightarrow>
      (\<exists>p pid hs rows.
          create_sample_data envs s =
            (Inl OperationalError,
             s\<lparr>landing_pages := landing_pages s @ [p],
               hero_sections := hero_sections s @ hs,
               features := features s @ rows\<rparr>)
          \<and> lp_slug p = ''home'' \<and> lp_is_active p \<and> lp_id p = Some pid
          \<and> length hs = (if 1 < k then 1 else 0) \<and> length rows = k - 2
          \<and> list_all (\<lambda>h. hs_landing_page_id h = pid) hs
          \<and> list_all (\<lambda>f. ft_landing_page_id f = pid) rows))
   \<and> (commit_fails (envs 0) \<or> ''home'' \<in> set (map lp_slug (landing_pages s)) \<longrightarrow>
      create_sample_data envs s =
        (Inl (if commit_fails (envs 0) then OperationalError else IntegrityError), s))"
proof (intro conjI impI)
  assume h: "''home'' \<notin> set (map lp_slug (landing_pages s)) \<and> 0 < k \<and> k < 9
      \<and> (\<forall>i<k. \<not> commit_fails (envs i)) \<and> commit_fails (envs k)"
  then have home: "''home'' \<notin> set (map lp_slug (landing_pages s))" and k0: "0 < k"
    and k9: "k < 9" and ok: "\<forall>i<k. \<not> commit_fails (envs i)" and bad: "commit_fails (envs k)"
    by simp_all
  have k': "k \<le> 9" using k9 by simp
  have bad': "k < 9 \<longrightarrow> commit_fails (envs k)" using bad by simp
  from create_sample_data_run [OF home k0 k' ok bad'] obtain p pid hs rows cs
    where r: "create_sample_data envs s =
        (if k = 9 then Inr p else Inl OperationalError,
         s\<lparr>landing_pages := landing_pages s @ [p], hero_sections := hero_sections s @ hs,
           features := features s @ rows, cta_sections := cta_sections s @ cs\<rparr>)"
      and p: "lp_slug p = ''home''" "lp_is_active p" "lp_id p = Some pid"
      and l: "length hs = (if 1 < k then 1 else 0)" "length rows = min (k - 2) 6"
        "length cs = (if k = 9 then 1 else 0)"
      and a: "list_all (\<lambda>h. hs_landing_page_id h = pid) hs"
        "list_all (\<lambda>f. ft_landing_page_id f = pid \<and> ft_display_order f = 0) rows"
    by blast
  have cs: "cs = []" using l(3) k9 by simp
  have lr: "length rows = k - 2" using l(2) k9 by simp
  have fl: "list_all (\<lambda>f. ft_landing_page_id f = pid) rows"
    using a(2) by (simp add: list_all_iff)
  have "create_sample_data envs s =
            (Inl OperationalError,
             s\<lparr>landing_pages := landing_pages s @ [p],
               hero_sections := hero_sections s @ hs,
               features := features s @ rows\<rparr>)"
    using r k9 cs by simp
  with p l(1) lr a(1) fl
  show "\<exists>p pid hs rows.
          create_sample_data envs s =
            (Inl OperationalError,
             s\<lparr>landing_pages := landing_pages s @ [p],
               hero_sections := hero_sections s @ hs,
               features := features s @ rows\<rparr>)
          \<and> lp_slug p = ''home'' \<and> lp_is_active p \<and> lp_id p = Some pid
          \<and> length hs = (if 1 < k then 1 else 0) \<and> length rows = k - 2
          \<and> list_all (\<lambda>h. hs_landing_page_id h = pid) hs
          \<and> list_all (\<lambda>f. ft_landing_page_id f = pid) rows"
    by blast
next
  assume "commit_fails (envs 0) \<or> ''home'' \<in> set (map lp_slug (landing_pages s))"
  then show "create_sample_data envs s =
        (Inl (if commit_fails (envs 0) then OperationalError else IntegrityError), s)"
    by (rule create_sample_data_page_fails)
qed

text \<open>
  A failure at the second feature leaves the page, the hero section and one feature; a
  failure at the page insert leaves the empty store empty.
\<close>

theorem sample_data_not_atomic_witness:
  "fst (create_sample_data (fails_at 3) empty_store) = Inl OperationalError
   \<and> map lp_slug (landing_pages (snd (create_sample_data (fails_at 3) empty_store))) = [''home'']
   \<and> list_all lp_is_active (landing_pages (snd (create_sample_data (fails_at 3) empty_store)))
   \<and> length (hero_sections (snd (create_sample_data (fails_at 3) empty_store))) = 1
   \<and> length (features (snd (create_sample_data (fails_at 3) empty_store))) = 1
   \<and> cta_sections (snd (create_sample_data (fails_at 3) empty_store)) = []
   \<and> create_sample_data (fails_at 0) empty_store = (Inl OperationalError, empty_store)"
proof -
  note th = sample_data_not_atomic
  have h: "''home'' \<notin> set (map lp_slug (landing_pages empty_store)) \<and> 0 < (3::nat)
      \<and> (3::nat) < 9 \<and> (\<forall>i<3. \<not> commit_fails (fails_at 3 i)) \<and> commit_fails (fails_at 3 3)"
    by (simp add: empty_store_def fails_at_def example_env_def)
  from th [where envs = "fails_at 3" and s = empty_store and k = 3,
      THEN conjunct1, THEN mp, OF h]
  have a: "fst (create_sample_data (fails_at 3) empty_store) = Inl OperationalError
   \<and> map lp_slug (landing_pages (snd (create_sample_data (fails_at 3) empty_store))) = [''home'']
   \<and> list_all lp_is_active (landing_pages (snd (create_sample_data (fails_at 3) empty_store)))
   \<and> length (hero_sections (snd (create_sample_data (fails_at 3) empty_store))) = 1
   \<and> length (features (snd (create_sample_data (fails_at 3) empty_store))) = 1
   \<and> cta_sections (snd (create_sample_data (fails_at 3) empty_store)) = []"
    by (auto simp: empty_store_def)
  have g: "commit_fails (fails_at 0 0) \<or> ''home'' \<in> set (map lp_slug (landing_pages empty_store))"
    by (simp add: fails_at_def)
  from th [where envs = "fails_at 0" and s = empty_store, THEN conjunct2, THEN mp, OF g]
  have b: "create_sample_data (fails_at 0) empty_store = (Inl OperationalError, empty_store)"
    by (simp add: fails_at_def)
  from a b show ?thesis by simp
qed


subsection \<open>Undeclared fields\<close>

lemma LandingPageCreate_declared:
  "list_all (\<lambda>k. map_of kw k = map_of kw' k) landing_page_create_fields \<Longrightarrow>
   LandingPageCreate kw = LandingPageCreate kw'"
  by (simp add: landing_page_create_fields_def LandingPageCreate_def required_str_def
      optional_str_def)

lemma HeroSectionCreate_declared:
  "list_all (\<lambda>k. map_of kw k = map_of kw' k) hero_section_create_fields \<Longrightarrow>
   HeroSectionCreate kw = HeroSectionCreate kw'"
  by (simp add: hero_section_create_fields_def HeroSectionCreate_def required_str_def
      optional_str_def required_int_def default_str_def)

lemma FeatureCreate_declared:
  "list_all (\<lambda>k. map_of kw k = map_of kw' k) feature_create_fields \<Longrightarrow>
   FeatureCreate kw = FeatureCreate kw'"
  by (simp add: feature_create_fields_def FeatureCreate_def required_str_def
      optional_str_def required_int_def default_bool_def)

lemma CallToActionSectionCreate_declared:
  "list_all (\<lambda>k. map_of kw k = map_of kw' k) cta_section_create_fields \<Longrightarrow>
   CallToActionSectionCreate kw = CallToActionSectionCreate kw'"
  by (simp add: cta_section_create_fields_def CallToActionSectionCreate_def required_str_def
      optional_str_def required_int_def default_str_def)

lemma find_snoc_first:
  "list_all (\<lambda>x. \<not> P x) xs \<Longrightarrow> P y \<Longrightarrow> find P (xs @ [y]) = Some y"
  by (induction xs) auto

lemma create_landing_page_requires:
  "create_landing_page e d s = (Inr p, s') \<Longrightarrow>
   \<not> commit_fails e \<and> lpc_slug d \<notin> set (map lp_slug (landing_pages s))"
  by (auto simp: create_landing_page_def add_landing_page_def Let_def LandingPage_def
      split: if_splits)

lemma page_defaults:
  assumes "create_landing_page e d s = (Inr p, s')"
  shows "lp_is_active p \<and> get_active_landing_page (lpc_slug d) s' = Some p"
proof -
  from create_landing_page_success [OF assms]
  have p: "p = (LandingPage e d)\<lparr>lp_id := Some (fresh_id (map lp_id (landing_pages s)))\<rparr>"
    and s': "s' = s\<lparr>landing_pages := landing_pages s @ [p]\<rparr>" by simp_all
  from create_landing_page_requires [OF assms]
  have "lpc_slug d \<notin> set (map lp_slug (landing_pages s))" by simp
  then have "list_all (\<lambda>q. \<not> (lp_slug q = lpc_slug d \<and> lp_is_active q)) (landing_pages s)"
    by (force simp: list_all_iff)
  moreover have a: "lp_slug p = lpc_slug d \<and> lp_is_active p" by (simp add: p LandingPage_def)
  ultimately have "find (\<lambda>q. lp_slug q = lpc_slug d \<and> lp_is_active q) (landing_pages s @ [p]) = Some p"
    by (rule find_snoc_first)
  then show ?thesis using a by (simp add: get_active_landing_page_def s')
qed

lemma hero_defaults:
  assumes "create_hero_section e d s = (Inr h, s')"
  shows "hs_is_active h \<and> hs_background_color h = None \<and> hs_text_color h = None
    \<and> hs_secondary_button_text h = None \<and> hs_secondary_button_url h = None
    \<and> hs_height h = ''full'' \<and> hs_display_order h = 0
    \<and> h \<in> set (get_hero_sections (hsc_landing_page_id d) s')"
proof -
  from create_hero_section_success [OF assms]
  have p: "h = (HeroSection e d)\<lparr>hs_id := Some (fresh_id (map hs_id (hero_sections s)))\<rparr>"
    and s': "s' = s\<lparr>hero_sections := hero_sections s @ [h]\<rparr>" by simp_all
  have a: "hs_is_active h \<and> hs_landing_page_id h = hsc_landing_page_id d"
    by (simp add: p HeroSection_def)
  then have "h \<in> set (get_hero_sections (hsc_landing_page_id d) s')"
    by (simp add: get_hero_sections_def s')
  then show ?thesis by (simp add: p HeroSection_def)
qed

lemma feature_defaults:
  assumes "create_feature e d s = (Inr f, s')"
  shows "ft_is_active f \<and> ft_icon_color f = None \<and> ft_background_color f = None
    \<and> ft_text_color f = None \<and> ft_display_order f = 0
    \<and> f \<in> set (get_features (fc_landing_page_id d) s')"
proof -
  from create_feature_success [OF assms]
  have p: "f = (Feature e d)\<lparr>ft_id := Some (fresh_id (map ft_id (features s)))\<rparr>"
    and s': "s' = s\<lparr>features := features s @ [f]\<rparr>" by simp_all
  have a: "ft_is_active f \<and> ft_landing_page_id f = fc_landing_page_id d"
    by (simp add: p Feature_def)
  then have "f \<in> set (get_features (fc_landing_page_id d) s')"
    by (simp add: get_features_def s')
  then show ?thesis by (simp add: p Feature_def)
qed

lemma cta_defaults:
  assumes "create_cta_section e d s = (Inr c, s')"
  shows "cta_is_active c \<and> cta_primary_button_style c = ''primary''
    \<and> cta_secondary_button_style c = ''secondary'' \<and> cta_background_color c = None
    \<and> cta_text_color c = None \<and> cta_background_image_url c = None
    \<and> cta_size c = ''medium'' \<and> cta_display_order c = 0
    \<and> c \<in> set (get_cta_sections (cc_landing_page_id d) s')"
proof -
  from create_cta_section_success [OF assms]
  have p: "c = (CallToActionSection e d)\<lparr>cta_id := Some (fresh_id (map cta_id (cta_sections s)))\<rparr>"
    and s': "s' = s\<lparr>cta_sections := cta_sections s @ [c]\<rparr>" by simp_all
  have a: "cta_is_active c \<and> cta_landing_page_id c = cc_landing_page_id d"
    by (simp add: p CallToActionSection_def)
  then have "c \<in> set (get_cta_sections (cc_landing_page_id d) s')"
    by (simp add: get_cta_sections_def s')
  then show ?thesis by (simp add: p CallToActionSection_def)
qed

lemma LandingPageCreate_accepts:
  "map_of kw ''title'' = Some (PyStr title) \<and> length title \<le> 200
   \<and> map_of kw ''slug'' = Some (PyStr slug) \<and> length slug \<le> 100
   \<and> map_of kw ''meta_title'' = None \<and> map_of kw ''meta_description'' = None \<Longrightarrow>
   LandingPageCreate kw =
     Inr \<lparr>lpc_title = title, lpc_slug = slug, lpc_meta_title = None,
          lpc_meta_description = None\<rparr>"
  by (simp add: LandingPageCreate_def required_str_def optional_str_def and_then_def)

lemma HeroSectionCreate_accepts:
  "map_of kw ''landing_page_id'' = Some (PyInt pid)
   \<and> map_of kw ''headline'' = Some (PyStr headline) \<and> length headline \<le> 300
   \<and> map_of kw ''subheadline'' = None \<and> map_of kw ''description'' = None
   \<and> map_of kw ''background_image_url'' = None
   \<and> map_of kw ''primary_button_text'' = None \<and> map_of kw ''primary_button_url'' = None
   \<and> map_of kw ''alignment'' = None \<Longrightarrow>
   HeroSectionCreate kw =
     Inr \<lparr>hsc_landing_page_id = pid, hsc_headline = headline, hsc_subheadline = None,
          hsc_description = None, hsc_background_image_url = None,
          hsc_primary_button_text = None, hsc_primary_button_url = None,
          hsc_alignment = ''center''\<rparr>"
  by (simp add: HeroSectionCreate_def required_int_def required_str_def optional_str_def
      default_str_def and_then_def)

lemma FeatureCreate_accepts:
  "map_of kw ''landing_page_id'' = Some (PyInt pid)
   \<and> map_of kw ''title'' = Some (PyStr title) \<and> length title \<le> 200
   \<and> map_of kw ''description'' = Some (PyStr descr) \<and> length descr \<le> 1000
   \<and> map_of kw ''icon'' = None \<and> map_of kw ''image_url'' = None
   \<and> map_of kw ''link_text'' = None \<and> map_of kw ''link_url'' = None
   \<and> map_of kw ''is_featured'' = None \<Longrightarrow>
   FeatureCreate kw =
     Inr \<lparr>fc_landing_page_id = pid, fc_title = title, fc_description = descr,
          fc_icon = None, fc_image_url = None, fc_link_text = None, fc_link_url = None,
          fc_is_featured = False\<rparr>"
  by (simp add: FeatureCreate_def required_int_def required_str_def optional_str_def
      default_bool_def and_then_def)

lemma CallToActionSectionCreate_accepts:
  "map_of kw ''landing_page_id'' = Some (PyInt pid)
   \<and> map_of kw ''headline'' = Some (PyStr headline) \<and> length headline \<le> 300
   \<and> map_of kw ''subheadline'' = None \<and> map_of kw ''description'' = None
   \<and> map_of kw ''primary_button_text'' = Some (PyStr btext) \<and> length btext \<le> 100
   \<and> map_of kw ''primary_button_url'' = Some (PyStr burl) \<and> length burl \<le> 500
   \<and> map_of kw ''secondary_button_text'' = None
   \<and> map_of kw ''secondary_button_url'' = None \<and> map_of kw ''alignment'' = None \<Longrightarrow>
   CallToActionSectionCreate kw =
     Inr \<lparr>cc_landing_page_id = pid, cc_headline = headline, cc_subheadline = None,
          cc_description = None, cc_primary_button_text = btext,
          cc_primary_button_url = burl, cc_secondary_button_text = None,
          cc_secondary_button_url = None, cc_alignment = ''center''\<rparr>"
  by (simp add: CallToActionSectionCreate_def required_int_def required_str_def
      optional_str_def default_str_def and_then_def)

lemma page_created_visible:
  assumes "\<not> commit_fails e \<and> lpc_slug d \<notin> set (map lp_slug (landing_pages s))"
  shows "\<exists>p. create_landing_page e d s =
        (Inr p, s\<lparr>landing_pages := landing_pages s @ [p]\<rparr>)
      \<and> lp_is_active p
      \<and> get_active_landing_page (lpc_slug d) (s\<lparr>landing_pages := landing_pages s @ [p]\<rparr>)
          = Some p"
proof -
  from assms have a: "\<not> commit_fails e"
    and b: "lpc_slug d \<notin> set (map lp_slug (landing_pages s))" by simp_all
  from create_landing_page_ok [OF a b] obtain p
    where p: "create_landing_page e d s =
        (Inr p, s\<lparr>landing_pages := landing_pages s @ [p]\<rparr>)"
    by blast
  from page_defaults [OF p] p show ?thesis by blast
qed

lemma hero_created_visible:
  assumes "\<not> commit_fails e
    \<and> Some (hsc_landing_page_id d) \<in> set (map lp_id (landing_pages s))"
  shows "\<exists>h. create_hero_section e d s =
        (Inr h, s\<lparr>hero_sections := hero_sections s @ [h]\<rparr>)
      \<and> hs_is_active h \<and> hs_background_color h = None \<and> hs_text_color h = None
      \<and> hs_secondary_button_text h = None \<and> hs_secondary_button_url h = None
      \<and> hs_height h = ''full'' \<and> hs_display_order h = 0
      \<and> h \<in> set (get_hero_sections (hsc_landing_page_id d)
            (s\<lparr>hero_sections := hero_sections s @ [h]\<rparr>))"
proof -
  from assms have a: "\<not> commit_fails e"
    and b: "Some (hsc_landing_page_id d) \<in> set (map lp_id (landing_pages s))" by simp_all
  from create_hero_section_ok [OF a b] obtain h
    where h: "create_hero_section e d s =
        (Inr h, s\<lparr>hero_sections := hero_sections s @ [h]\<rparr>)"
    by blast
  from hero_defaults [OF h] h show ?thesis by blast
qed

lemma feature_created_visible:
  assumes "\<not> commit_fails e
    \<and> Some (fc_landing_page_id d) \<in> set (map lp_id (landing_pages s))"
  shows "\<exists>f. create_feature e d s = (Inr f, s\<lparr>features := features s @ [f]\<rparr>)
      \<and> ft_is_active f \<and> ft_icon_color f = None \<and> ft_background_color f = None
      \<and> ft_text_color f = None \<and> ft_display_order f = 0
      \<and> f \<in> set (get_features (fc_landing_page_id d)
            (s\<lparr>features := features s @ [f]\<rparr>))"
proof -
  from assms have a: "\<not> commit_fails e"
    and b: "Some (fc_landing_page_id d) \<in> set (map lp_id (landing_pages s))" by simp_all
  from create_feature_ok [OF a b] obtain f
    where f: "create_feature e d s = (Inr f, s\<lparr>features := features s @ [f]\<rparr>)"
    by blast
  from feature_defaults [OF f] f show ?thesis by blast
qed

lemma cta_created_visible:
  assumes "\<not> commit_fails e
    \<and> Some (cc_landing_page_id d) \<in> set (map lp_id (landing_pages s))"
  shows "\<exists>c. create_cta_section e d s =
        (Inr c, s\<lparr>cta_sections := cta_sections s @ [c]\<rparr>)
      \<and> cta_is_active c \<and> cta_primary_button_style c = ''primary''
      \<and> cta_secondary_button_style c = ''secondary'' \<and> cta_background_color c = None
      \<and> cta_text_color c = None \<and> cta_background_image_url c = None
      \<and> cta_size c = ''medium'' \<and> cta_display_order c = 0
      \<and> c \<in> set (get_cta_sections (cc_landing_page_id d)
            (s\<lparr>cta_sections := cta_sections s @ [c]\<rparr>))"
proof -
  from assms have a: "\<not> commit_fails e"
    and b: "Some (cc_landing_page_id d) \<in> set (map lp_id (landing_pages s))" by simp_all
  from create_cta_section_ok [OF a b] obtain c
    where c: "create_cta_section e d s =
        (Inr c, s\<lparr>cta_sections := cta_sections s @ [c]\<rparr>)"
    by blast
  from cta_defaults [OF c] c show ?thesis by blast
qed

lemma extra_page_created:
  "create_landing_page example_env extra_page_data empty_store =
   (Inr extra_page, empty_store\<lparr>landing_pages := [extra_page]\<rparr>)"
  by (simp add: create_landing_page_def add_landing_page_def Let_def empty_store_def
      extra_page_def example_env_def fresh_id_def)

lemma extra_hero_created:
  "create_hero_section example_env extra_hero_data one_page_store =
   (Inr extra_hero, one_page_store\<lparr>hero_sections := [extra_hero]\<rparr>)"
  by (simp add: create_hero_section_def add_hero_section_def Let_def empty_store_def
      one_page_store_def test_page_def extra_hero_def extra_hero_data_def HeroSection_def
      example_env_def fresh_id_def)

lemma extra_feature_created:
  "create_feature example_env extra_feature_data one_page_store =
   (Inr extra_feature, one_page_store\<lparr>features := [extra_feature]\<rparr>)"
  by (simp add: create_feature_def add_feature_def Let_def empty_store_def
      one_page_store_def test_page_def extra_feature_def extra_feature_data_def Feature_def
      example_env_def fresh_id_def)

lemma extra_cta_created:
  "create_cta_section example_env extra_cta_data one_page_store =
   (Inr extra_cta, one_page_store\<lparr>cta_sections := [extra_cta]\<rparr>)"
  by (simp add: create_cta_section_def add_cta_section_def Let_def empty_store_def
      one_page_store_def test_page_def extra_cta_def extra_cta_data_def
      CallToActionSection_def example_env_def fresh_id_def)

text \<open>
  C10. A schema constructor accepts a keyword list that gives the required fields at
  their declared types and lengths, whatever undeclared keywords the list carries
  besides, and reads the declared fields only: two keyword lists that agree on the
  declared fields give the same result. A creation whose commit is carried out, for a
  fresh slug or a page that exists, succeeds, and the created row has the column default
  in every column that the schema does not declare, whatever the caller passed: every
  created page, hero section, feature and call-to-action section is active and is
  returned by its read accessor at once; every created feature has \<open>display_order\<close> 0
  and no \<open>icon_color\<close>, \<open>background_color\<close> or \<open>text_color\<close>; every created hero
  section has no \<open>background_color\<close>, no \<open>text_color\<close> and \<open>height\<close> \<open>full\<close>.
\<close>

theorem undeclared_fields_take_defaults:
  "(list_all (\<lambda>k. map_of kw k = map_of kw' k) landing_page_create_fields \<longrightarrow>
      LandingPageCreate kw = LandingPageCreate kw')
   \<and> (list_all (\<lambda>k. map_of kw k = map_of kw' k) hero_section_create_fields \<longrightarrow>
      HeroSectionCreate kw = HeroSectionCreate kw')
   \<and> (list_all (\<lambda>k. map_of kw k = map_of kw' k) feature_create_fields \<longrightarrow>
      FeatureCreate kw = FeatureCreate kw')
   \<and> (list_all (\<lambda>k. map_of kw k = map_of kw' k) cta_section_create_fields \<longrightarrow>
      CallToActionSectionCreate kw = CallToActionSectionCreate kw')
   \<and> (map_of kw ''title'' = Some (PyStr title) \<and> length title \<le> 200
      \<and> map_of kw ''slug'' = Some (PyStr slug) \<and> length slug \<le> 100
      \<and> map_of kw ''meta_title'' = None \<and> map_of kw ''meta_description'' = None \<longrightarrow>
      LandingPageCreate kw =
        Inr \<lparr>lpc_title = title, lpc_slug = slug, lpc_meta_title = None,
             lpc_meta_description = None\<rparr>)
   \<and> (map_of kw ''landing_page_id'' = Some (PyInt pid)
      \<and> map_of kw ''headline'' = Some (PyStr headline) \<and> length headline \<le> 300
      \<and> map_of kw ''subheadline'' = None \<and> map_of kw ''description'' = None
      \<and> map_of kw ''background_image_url'' = None
      \<and> map_of kw ''primary_button_text'' = None \<and> map_of kw ''primary_button_url'' = None
      \<and> map_of kw ''alignment'' = None \<longrightarrow>
      HeroSectionCreate kw =
        Inr \<lparr>hsc_landing_page_id = pid, hsc_headline = headline, hsc_subheadline = None,
             hsc_description = None, hsc_background_image_url = None,
             hsc_primary_button_text = None, hsc_primary_button_url = None,
             hsc_alignment = ''center''\<rparr>)
   \<and> (map_of kw ''landing_page_id'' = Some (PyInt pid)
      \<and> map_of kw ''title'' = Some (PyStr title) \<and> length title \<le> 200
      \<and> map_of kw ''description'' = Some (PyStr descr) \<and> length descr \<le> 1000
      \<and> map_of kw ''icon'' = None \<and> map_of kw ''image_url'' = None
      \<and> map_of kw ''link_text'' = None \<and> map_of kw ''link_url'' = None
      \<and> map_of kw ''is_featured'' = None \<longrightarrow>
      FeatureCreate kw =
        Inr \<lparr>fc_landing_page_id = pid, fc_title = title, fc_description = descr,
             fc_icon = None, fc_image_url = None, fc_link_text = None, fc_link_url = None,
             fc_is_featured = False\<rparr>)
   \<and> (map_of kw ''landing_page_id'' = Some (PyInt pid)
      \<and> map_of kw ''headline'' = Some (PyStr headline) \<and> length headline \<le> 300
      \<and> map_of kw ''subheadline'' = None \<and> map_of kw ''description'' = None
      \<and> map_of kw ''primary_button_text'' = Some (PyStr btext) \<and> length btext \<le> 100
      \<and> map_of kw ''primary_button_url'' = Some (PyStr burl) \<and> length burl \<le> 500
      \<and> map_of kw ''secondary_button_text'' = None
      \<and> map_of kw ''secondary_button_url'' = None \<and> map_of kw ''alignment'' = None \<longrightarrow>
      CallToActionSectionCreate kw =
        Inr \<lparr>cc_landing_page_id = pid, cc_headline = headline, cc_subheadline = None,
             cc_description = None, cc_primary_button_text = btext,
             cc_primary_button_url = burl, cc_secondary_button_text = None,
             cc_secondary_button_url = None, cc_alignment = ''center''\<rparr>)
   \<and> (create_landing_page e page_data s = (Inr p, s1) \<longrightarrow>
      lp_is_active p \<and> get_active_landing_page (lpc_slug page_data) s1 = Some p)
   \<and> (create_hero_section e hero_data s = (Inr h, s2) \<longrightarrow>
      hs_is_active h \<and> hs_background_color h = None \<and> hs_text_color h = None
      \<and> hs_secondary_button_text h = None \<and> hs_secondary_button_url h = None
      \<and> hs_height h = ''full'' \<and> hs_display_order h = 0
      \<and> h \<in> set (get_hero_sections (hsc_landing_page_id hero_data) s2))
   \<and> (create_feature e feature_data s = (Inr f, s3) \<longrightarrow>
      ft_is_active f \<and> ft_icon_color f = None \<and> ft_background_color f = None
      \<and> ft_text_color f = None \<and> ft_display_order f = 0
      \<and> f \<in> set (get_features (fc_landing_page_id feature_data) s3))
   \<and> (create_cta_section e cta_data s = (Inr c, s4) \<longrightarrow>
      cta_is_active c \<and> cta_primary_button_style c = ''primary''
      \<and> cta_secondary_button_style c = ''secondary'' \<and> cta_background_color c = None
      \<and> cta_text_color c = None \<and> cta_background_image_url c = None
      \<and> cta_size c = ''medium'' \<and> cta_display_order c = 0
      \<and> c \<in> set (get_cta_sections (cc_landing_page_id cta_data) s4))
   \<and> (\<not> commit_fails e \<and> lpc_slug page_data \<notin> set (map lp_slug (landing_pages s)) \<longrightarrow>
      (\<exists>p. create_landing_page e page_data s =
            (Inr p, s\<lparr>landing_pages := landing_pages s @ [p]\<rparr>)
          \<and> lp_is_active p
          \<and> get_active_landing_page (lpc_slug page_data)
                (s\<lparr>landing_pages := landing_pages s @ [p]\<rparr>) = Some p))
   \<and> (\<not> commit_fails e
      \<and> Some (hsc_landing_page_id hero_data) \<in> set (map lp_id (landing_pages s)) \<longrightarrow>
      (\<exists>h. create_hero_section e hero_data s =
            (Inr h, s\<lparr>hero_sections := hero_sections s @ [h]\<rparr>)
          \<and> hs_is_active h \<and> hs_background_color h = None \<and> hs_text_color h = None
          \<and> hs_secondary_button_text h = None \<and> hs_secondary_button_url h = None
          \<and> hs_height h = ''full'' \<and> hs_display_order h = 0
          \<and> h \<in> set (get_hero_sections (hsc_landing_page_id hero_data)
                (s\<lparr>hero_sections := hero_sections s @ [h]\<rparr>))))
   \<and> (\<not> commit_fails e
      \<and> Some (fc_landing_page_id feature_data) \<in> set (map lp_id (landing_pages s)) \<longrightarrow>
      (\<exists>f. create_feature e feature_data s =
            (Inr f, s\<lparr>features := features s @ [f]\<rparr>)
          \<and> ft_is_active f \<and> ft_icon_color f = None \<and> ft_background_color f = None
          \<and> ft_text_color f = None \<and> ft_display_order f = 0
          \<and> f \<in> set (get_features (fc_landing_page_id feature_data)
                (s\<lparr>features := features s @ [f]\<rparr>))))
   \<and> (\<not> commit_fails e
      \<and> Some (cc_landing_page_id cta_data) \<in> set (map lp_id (landing_pages s)) \<longrightarrow>
      (\<exists>c. create_cta_section e cta_data s =
            (Inr c, s\<lparr>cta_sections := cta_sections s @ [c]\<rparr>)
          \<and> cta_is_active c \<and> cta_primary_button_style c = ''primary''
          \<and> cta_secondary_button_style c = ''secondary'' \<and> cta_background_color c = None
          \<and> cta_text_color c = None \<and> cta_background_image_url c = None
          \<and> cta_size c = ''medium'' \<and> cta_display_order c = 0
          \<and> c \<in> set (get_cta_sections (cc_landing_page_id cta_data)
                (s\<lparr>cta_sections := cta_sections s @ [c]\<rparr>))))"
proof -
  note eq = LandingPageCreate_declared [of kw kw'] HeroSectionCreate_declared [of kw kw']
    FeatureCreate_declared [of kw kw'] CallToActionSectionCreate_declared [of kw kw']
  note ac = LandingPageCreate_accepts [of kw title slug]
    HeroSectionCreate_accepts [of kw pid headline]
    FeatureCreate_accepts [of kw pid title descr]
    CallToActionSectionCreate_accepts [of kw pid headline btext burl]
  note cn = page_defaults [of e page_data s p s1] hero_defaults [of e hero_data s h s2]
    feature_defaults [of e feature_data s f s3] cta_defaults [of e cta_data s c s4]
  note su = page_created_visible [of e page_data s] hero_created_visible [of e hero_data s]
    feature_created_visible [of e feature_data s] cta_created_visible [of e cta_data s]
  show ?thesis
    by (rule conjI, rule impI, erule eq(1),
        rule conjI, rule impI, erule eq(2),
        rule conjI, rule impI, erule eq(3),
        rule conjI, rule impI, erule eq(4),
        rule conjI, rule impI, erule ac(1),
        rule conjI, rule impI, erule ac(2),
        rule conjI, rule impI, erule ac(3),
        rule conjI, rule impI, erule ac(4),
        rule conjI, rule impI, erule cn(1),
        rule conjI, rule impI, erule cn(2),
        rule conjI, rule impI, erule cn(3),
        rule conjI, rule impI, erule cn(4),
        rule conjI, rule impI, erule su(1),
        rule conjI, rule impI, erule su(2),
        rule conjI, rule impI, erule su(3),
        rule impI, erule su(4))
qed

text \<open>
  Keyword lists that pass \<open>is_active\<close>, \<open>display_order\<close>, colours, \<open>height\<close> and
  \<open>size\<close> are accepted and give the same schema value as without those keywords; the
  creations from these schema values succeed, and the rows they return have the
  defaults and are returned by the accessors.
\<close>

theorem undeclared_fields_take_defaults_witness:
  "map_of extra_page_kwargs ''is_active'' = Some (PyBool False)
   \<and> LandingPageCreate extra_page_kwargs = Inr extra_page_data
   \<and> LandingPageCreate (declared_only landing_page_create_fields extra_page_kwargs) =
       Inr extra_page_data
   \<and> create_landing_page example_env extra_page_data empty_store =
       (Inr extra_page, empty_store\<lparr>landing_pages := [extra_page]\<rparr>)
   \<and> lp_is_active extra_page
   \<and> get_active_landing_page ''test'' (empty_store\<lparr>landing_pages := [extra_page]\<rparr>) =
       Some extra_page
   \<and> map_of extra_hero_kwargs ''height'' = Some (PyStr ''compact'')
   \<and> map_of extra_hero_kwargs ''display_order'' = Some (PyInt 2)
   \<and> HeroSectionCreate extra_hero_kwargs = Inr extra_hero_data
   \<and> HeroSectionCreate (declared_only hero_section_create_fields extra_hero_kwargs) =
       Inr extra_hero_data
   \<and> create_hero_section example_env extra_hero_data one_page_store =
       (Inr extra_hero, one_page_store\<lparr>hero_sections := [extra_hero]\<rparr>)
   \<and> hs_is_active extra_hero \<and> hs_background_color extra_hero = None
   \<and> hs_text_color extra_hero = None \<and> hs_height extra_hero = ''full''
   \<and> hs_display_order extra_hero = 0
   \<and> extra_hero \<in> set (get_hero_sections 1 (one_page_store\<lparr>hero_sections := [extra_hero]\<rparr>))
   \<and> map_of extra_feature_kwargs ''display_order'' = Some (PyInt 2)
   \<and> map_of extra_feature_kwargs ''icon_color'' = Some (PyStr ''#10b981'')
   \<and> FeatureCreate extra_feature_kwargs = Inr extra_feature_data
   \<and> FeatureCreate (declared_only feature_create_fields extra_feature_kwargs) =
       Inr extra_feature_data
   \<and> create_feature example_env extra_feature_data one_page_store =
       (Inr extra_feature, one_page_store\<lparr>features := [extra_feature]\<rparr>)
   \<and> ft_is_active extra_feature \<and> ft_display_order extra_feature = 0
   \<and> ft_icon_color extra_feature = None \<and> ft_background_color extra_feature = None
   \<and> ft_text_color extra_feature = None
   \<and> extra_feature \<in> set (get_features 1 (one_page_store\<lparr>features := [extra_feature]\<rparr>))
   \<and> map_of extra_cta_kwargs ''size'' = Some (PyStr ''large'')
   \<and> CallToActionSectionCreate extra_cta_kwargs = Inr extra_cta_data
   \<and> CallToActionSectionCreate (declared_only cta_section_create_fields extra_cta_kwargs) =
       Inr extra_cta_data
   \<and> create_cta_section example_env extra_cta_data one_page_store =
       (Inr extra_cta, one_page_store\<lparr>cta_sections := [extra_cta]\<rparr>)
   \<and> cta_is_active extra_cta \<and> cta_size extra_cta = ''medium''
   \<and> cta_background_color extra_cta = None \<and> cta_display_order extra_cta = 0
   \<and> extra_cta \<in> set (get_cta_sections 1 (one_page_store\<lparr>cta_sections := [extra_cta]\<rparr>))"
proof -
  note th = undeclared_fields_take_defaults
  have k1: "list_all (\<lambda>k. map_of extra_page_kwargs k
      = map_of (declared_only landing_page_create_fields extra_page_kwargs) k)
      landing_page_create_fields"
    by (simp add: landing_page_create_fields_def extra_page_kwargs_def declared_only_def)
  have k2: "list_all (\<lambda>k. map_of extra_hero_kwargs k
      = map_of (declared_only hero_section_create_fields extra_hero_kwargs) k)
      hero_section_create_fields"
    by (simp add: hero_section_create_fields_def extra_hero_kwargs_def declared_only_def)
  have k3: "list_all (\<lambda>k. map_of extra_feature_kwargs k
      = map_of (declared_only feature_create_fields extra_feature_kwargs) k)
      feature_create_fields"
    by (simp add: feature_create_fields_def extra_feature_kwargs_def declared_only_def)
  have k4: "list_all (\<lambda>k. map_of extra_cta_kwargs k
      = map_of (declared_only cta_section_create_fields extra_cta_kwargs) k)
      cta_section_create_fields"
    by (simp add: cta_section_create_fields_def extra_cta_kwargs_def declared_only_def)
  have a1: "map_of extra_page_kwargs ''title'' = Some (PyStr ''Test Page'')
      \<and> length ''Test Page'' \<le> 200
      \<and> map_of extra_page_kwargs ''slug'' = Some (PyStr ''test'') \<and> length ''test'' \<le> 100
      \<and> map_of extra_page_kwargs ''meta_title'' = None
      \<and> map_of extra_page_kwargs ''meta_description'' = None"
    by (simp add: extra_page_kwargs_def)
  have a2: "map_of extra_hero_kwargs ''landing_page_id'' = Some (PyInt 1)
      \<and> map_of extra_hero_kwargs ''headline'' = Some (PyStr ''First Hero'')
      \<and> length ''First Hero'' \<le> 300
      \<and> map_of extra_hero_kwargs ''subheadline'' = None
      \<and> map_of extra_hero_kwargs ''description'' = None
      \<and> map_of extra_hero_kwargs ''background_image_url'' = None
      \<and> map_of extra_hero_kwargs ''primary_button_text'' = None
      \<and> map_of extra_hero_kwargs ''primary_button_url'' = None
      \<and> map_of extra_hero_kwargs ''alignment'' = None"
    by (simp add: extra_hero_kwargs_def)
  have a3: "map_of extra_feature_kwargs ''landing_page_id'' = Some (PyInt 1)
      \<and> map_of extra_feature_kwargs ''title'' = Some (PyStr ''Feature B'')
      \<and> length ''Feature B'' \<le> 200
      \<and> map_of extra_feature_kwargs ''description'' = Some (PyStr ''Description B'')
      \<and> length ''Description B'' \<le> 1000
      \<and> map_of extra_feature_kwargs ''icon'' = None
      \<and> map_of extra_feature_kwargs ''image_url'' = None
      \<and> map_of extra_feature_kwargs ''link_text'' = None
      \<and> map_of extra_feature_kwargs ''link_url'' = None
      \<and> map_of extra_feature_kwargs ''is_featured'' = None"
    by (simp add: extra_feature_kwargs_def)
  have a4: "map_of extra_cta_kwargs ''landing_page_id'' = Some (PyInt 1)
      \<and> map_of extra_cta_kwargs ''headline'' = Some (PyStr ''First CTA'')
      \<and> length ''First CTA'' \<le> 300
      \<and> map_of extra_cta_kwargs ''subheadline'' = None
      \<and> map_of extra_cta_kwargs ''description'' = None
      \<and> map_of extra_cta_kwargs ''primary_button_text'' = Some (PyStr ''Action 1'')
      \<and> length ''Action 1'' \<le> 100
      \<and> map_of extra_cta_kwargs ''primary_button_url'' = Some (PyStr ''/action1'')
      \<and> length ''/action1'' \<le> 500
      \<and> map_of extra_cta_kwargs ''secondary_button_text'' = None
      \<and> map_of extra_cta_kwargs ''secondary_button_url'' = None
      \<and> map_of extra_cta_kwargs ''alignment'' = None"
    by (simp add: extra_cta_kwargs_def)
  have s1: "\<not> commit_fails example_env
      \<and> lpc_slug extra_page_data \<notin> set (map lp_slug (landing_pages empty_store))"
    by (simp add: example_env_def empty_store_def)
  have s2: "\<not> commit_fails example_env
      \<and> Some (hsc_landing_page_id extra_hero_data) \<in> set (map lp_id (landing_pages one_page_store))"
    by (simp add: example_env_def one_page_store_def test_page_def extra_hero_data_def)
  have s3: "\<not> commit_fails example_env
      \<and> Some (fc_landing_page_id extra_feature_data) \<in> set (map lp_id (landing_pages one_page_store))"
    by (simp add: example_env_def one_page_store_def test_page_def extra_feature_data_def)
  have s4: "\<not> commit_fails example_env
      \<and> Some (cc_landing_page_id extra_cta_data) \<in> set (map lp_id (landing_pages one_page_store))"
    by (simp add: example_env_def one_page_store_def test_page_def extra_cta_data_def)
  have m: "map_of extra_page_kwargs ''is_active'' = Some (PyBool False)"
    "map_of extra_hero_kwargs ''height'' = Some (PyStr ''compact'')"
    "map_of extra_hero_kwargs ''display_order'' = Some (PyInt 2)"
    "map_of extra_feature_kwargs ''display_order'' = Some (PyInt 2)"
    "map_of extra_feature_kwargs ''icon_color'' = Some (PyStr ''#10b981'')"
    "map_of extra_cta_kwargs ''size'' = Some (PyStr ''large'')"
    by (simp_all add: extra_page_kwargs_def extra_hero_kwargs_def extra_feature_kwargs_def
        extra_cta_kwargs_def)
  have d: "lpc_slug extra_page_data = ''test''" "hsc_landing_page_id extra_hero_data = 1"
    "fc_landing_page_id extra_feature_data = 1" "cc_landing_page_id extra_cta_data = 1"
    by (simp_all add: extra_page_data_def extra_hero_data_def extra_feature_data_def
        extra_cta_data_def)
  note e1 = th [where kw = extra_page_kwargs, THEN conjunct1, THEN mp, OF k1]
  note e2 = th [where kw = extra_hero_kwargs, THEN conjunct2, THEN conjunct1, THEN mp, OF k2]
  note e3 = th [where kw = extra_feature_kwargs, THEN conjunct2, THEN conjunct2, THEN conjunct1, THEN mp, OF k3]
  note e4 = th [where kw = extra_cta_kwargs, THEN conjunct2, THEN conjunct2, THEN conjunct2, THEN conjunct1, THEN mp, OF k4]
  note b1 = th [where kw = extra_page_kwargs, THEN conjunct2, THEN conjunct2, THEN conjunct2, THEN conjunct2, THEN conjunct1, THEN mp, OF a1]
  note b2 = th [where kw = extra_hero_kwargs, THEN conjunct2, THEN conjunct2, THEN conjunct2, THEN conjunct2, THEN conjunct2, THEN conjunct1, THEN mp, OF a2]
  note b3 = th [where kw = extra_feature_kwargs, THEN conjunct2, THEN conjunct2, THEN conjunct2, THEN conjunct2, THEN conjunct2, THEN conjunct2, THEN conjunct1, THEN mp, OF a3]
  note b4 = th [where kw = extra_cta_kwargs, THEN conjunct2, THEN conjunct2, THEN conjunct2, THEN conjunct2, THEN conjunct2, THEN conjunct2, THEN conjunct2, THEN conjunct1, THEN mp, OF a4]
  note c1 = th [THEN conjunct2, THEN conjunct2, THEN conjunct2, THEN conjunct2, THEN conjunct2, THEN conjunct2, THEN conjunct2, THEN conjunct2, THEN conjunct1, THEN mp, OF extra_page_created]
  note c2 = th [THEN conjunct2, THEN conjunct2, THEN conjunct2, THEN conjunct2, THEN conjunct2, THEN conjunct2, THEN conjunct2, THEN conjunct2, THEN conjunct2, THEN conjunct1, THEN mp, OF extra_hero_created]
  note c3 = th [THEN conjunct2, THEN conjunct2, THEN conjunct2, THEN conjunct2, THEN conjunct2, THEN conjunct2, THEN conjunct2, THEN conjunct2, THEN conjunct2, THEN conjunct2, THEN conjunct1, THEN mp, OF extra_feature_created]
  note c4 = th [THEN conjunct2, THEN conjunct2, THEN conjunct2, THEN conjunct2, THEN conjunct2, THEN conjunct2, THEN conjunct2, THEN conjunct2, THEN conjunct2, THEN conjunct2, THEN conjunct2, THEN conjunct1, THEN mp, OF extra_cta_created]
  note t1 = th [where e = example_env and s = empty_store and page_data = extra_page_data,
      THEN conjunct2, THEN conjunct2, THEN conjunct2, THEN conjunct2, THEN conjunct2, THEN conjunct2, THEN conjunct2, THEN conjunct2, THEN conjunct2, THEN conjunct2, THEN conjunct2, THEN conjunct2, THEN conjunct1, THEN mp, OF s1]
  note t2 = th [where e = example_env and s = one_page_store and hero_data = extra_hero_data,
      THEN conjunct2, THEN conjunct2, THEN conjunct2, THEN conjunct2, THEN conjunct2, THEN conjunct2, THEN conjunct2, THEN conjunct2, THEN conjunct2, THEN conjunct2, THEN conjunct2, THEN conjunct2, THEN conjunct2, THEN conjunct1, THEN mp, OF s2]
  note t3 = th [where e = example_env and s = one_page_store
      and feature_data = extra_feature_data,
      THEN conjunct2, THEN conjunct2, THEN conjunct2, THEN conjunct2, THEN conjunct2, THEN conjunct2, THEN conjunct2, THEN conjunct2, THEN conjunct2, THEN conjunct2, THEN conjunct2, THEN conjunct2, THEN conjunct2, THEN conjunct2, THEN conjunct1, THEN mp, OF s3]
  note t4 = th [where e = example_env and s = one_page_store and cta_data = extra_cta_data,
      THEN conjunct2, THEN conjunct2, THEN conjunct2, THEN conjunct2, THEN conjunct2, THEN conjunct2, THEN conjunct2, THEN conjunct2, THEN conjunct2, THEN conjunct2, THEN conjunct2, THEN conjunct2, THEN conjunct2, THEN conjunct2, THEN conjunct2, THEN mp, OF s4]
  have g1: "LandingPageCreate extra_page_kwargs = Inr extra_page_data
      \<and> LandingPageCreate (declared_only landing_page_create_fields extra_page_kwargs) =
          Inr extra_page_data
      \<and> lp_is_active extra_page
      \<and> get_active_landing_page ''test'' (empty_store\<lparr>landing_pages := [extra_page]\<rparr>) =
          Some extra_page"
    using e1 b1 c1 t1 by (simp add: extra_page_data_def)
  have g2: "HeroSectionCreate extra_hero_kwargs = Inr extra_hero_data
      \<and> HeroSectionCreate (declared_only hero_section_create_fields extra_hero_kwargs) =
          Inr extra_hero_data
      \<and> hs_is_active extra_hero \<and> hs_background_color extra_hero = None
      \<and> hs_text_color extra_hero = None \<and> hs_height extra_hero = ''full''
      \<and> hs_display_order extra_hero = 0
      \<and> extra_hero \<in> set (get_hero_sections 1
            (one_page_store\<lparr>hero_sections := [extra_hero]\<rparr>))"
    using e2 b2 c2 t2 by (simp add: extra_hero_data_def)
  have g3: "FeatureCreate extra_feature_kwargs = Inr extra_feature_data
      \<and> FeatureCreate (declared_only feature_create_fields extra_feature_kwargs) =
          Inr extra_feature_data
      \<and> ft_is_active extra_feature \<and> ft_display_order extra_feature = 0
      \<and> ft_icon_color extra_feature = None \<and> ft_background_color extra_feature = None
      \<and> ft_text_color extra_feature = None
      \<and> extra_feature \<in> set (get_features 1
            (one_page_store\<lparr>features := [extra_feature]\<rparr>))"
    using e3 b3 c3 t3 by (simp add: extra_feature_data_def)
  have g4: "CallToActionSectionCreate extra_cta_kwargs = Inr extra_cta_data
      \<and> CallToActionSectionCreate (declared_only cta_section_create_fields extra_cta_kwargs) =
          Inr extra_cta_data
      \<and> cta_is_active extra_cta \<and> cta_size extra_cta = ''medium''
      \<and> cta_background_color extra_cta = None \<and> cta_display_order extra_cta = 0
      \<and> extra_cta \<in> set (get_cta_sections 1
            (one_page_store\<lparr>cta_sections := [extra_cta]\<rparr>))"
    using e4 b4 c4 t4 by (simp add: extra_cta_data_def)
  from m g1 g2 g3 g4 extra_page_created extra_hero_created extra_feature_created
    extra_cta_created
  show ?thesis by blast
qed

end
